theory Spec2Isabelle
  imports Main "HOL-Library.Word" "HOL-Library.Multiset"
begin

unbundle bit_operations_syntax

section \<open>The ZIP archiver of PhysicsFS (src/archivers/zip.c)\<close>

text \<open>
  A shallow embedding of \<^verbatim>\<open>zip.c\<close>. C integers of a fixed width are words, C strings are
  character lists (the bytes before the terminating NUL), a \<^verbatim>\<open>ZIPentry *\<close> is an index into
  the entry table, and a read outside an array or past a string's terminator is the error
  \<open>OutOfBounds\<close>. A function that sets the PhysicsFS error and returns 0, NULL or -1 returns
  \<open>Inl\<close> of that error.
\<close>

subsection \<open>Data\<close>

datatype error =
    OutOfBounds
  | IoError
  | NotAnArchive
  | UnsupportedArchive
  | Corrupted
  | SymlinkLoop
  | NoSuchFile
  | NotADir
  | PastEOF
  | ZlibError int

datatype ZipResolveType =
    ZIP_UNRESOLVED_FILE
  | ZIP_UNRESOLVED_SYMLINK
  | ZIP_RESOLVING
  | ZIP_RESOLVED
  | ZIP_BROKEN_FILE
  | ZIP_BROKEN_SYMLINK

record ZIPentry =
  name :: string
  symlink :: "nat option"
  resolved :: ZipResolveType
  offset :: "32 word"
  version :: "16 word"
  version_needed :: "16 word"
  compression_method :: "16 word"
  crc :: "32 word"
  compressed_size :: "32 word"
  uncompressed_size :: "32 word"
  last_mod_time :: int

text \<open>
  A \<^verbatim>\<open>ZIPinfo\<close> is its entry table; \<^verbatim>\<open>entryCount\<close> is the length of the table, a
  \<^verbatim>\<open>PHYSFS_uint16\<close>, so a table never holds more than 65535 entries.
\<close>

type_synonym ZIPinfo = "ZIPentry list"


definition ZIP_READBUFSIZE :: nat where
  "ZIP_READBUFSIZE = 16 * 1024"

definition ZIP_LOCAL_FILE_SIG :: "32 word" where
  "ZIP_LOCAL_FILE_SIG = 0x04034b50"

definition ZIP_CENTRAL_DIR_SIG :: "32 word" where
  "ZIP_CENTRAL_DIR_SIG = 0x02014b50"


definition COMPMETH_NONE :: "16 word" where
  "COMPMETH_NONE = 0"

definition UNIX_FILETYPE_MASK :: "16 word" where
  "UNIX_FILETYPE_MASK = 0xF000"

definition UNIX_FILETYPE_SYMLINK :: "16 word" where
  "UNIX_FILETYPE_SYMLINK = 0xA000"

definition NUL :: char where
  "NUL = CHR 0x00"

definition bindE :: "error + 'a \<Rightarrow> ('a \<Rightarrow> error + 'b) \<Rightarrow> error + 'b" where
  "bindE m f = (case m of Inl e \<Rightarrow> Inl e | Inr x \<Rightarrow> f x)"

lemma bindE_InrE:
  assumes "bindE m f = Inr y"
  obtains x where "m = Inr x" and "f x = Inr y"
  using assms by (cases m) (simp_all add: bindE_def)

subsection \<open>The host byte source\<close>

text \<open>
  Modelled from the spec: the platform layer (\<^verbatim>\<open>__PHYSFS_platformRead\<close>, \<^verbatim>\<open>Seek\<close>,
  \<^verbatim>\<open>Tell\<close>, \<^verbatim>\<open>FileLength\<close>) is not in \<^verbatim>\<open>zip.c\<close>. The spec asks for a random-access
  byte stream: read(buf, itemSize, itemCount) returning the item count, seek(absolute),
  tell and length. Here the stream is the file's bytes and a cursor; a read delivers the
  bytes there are and counts the whole items among them, a seek fails outside the file.
\<close>

record handle =
  content :: "char list"
  fpos :: nat

definition platformOpenRead :: "char list \<Rightarrow> handle" where
  "platformOpenRead bytes = \<lparr>content = bytes, fpos = 0\<rparr>"

definition platformFileLength :: "handle \<Rightarrow> int" where
  "platformFileLength h = int (length (content h))"

definition platformTell :: "handle \<Rightarrow> int" where
  "platformTell h = int (fpos h)"

definition platformSeek :: "handle \<Rightarrow> int \<Rightarrow> handle option" where
  "platformSeek h pos =
     (if 0 \<le> pos \<and> pos \<le> int (length (content h)) then Some (h\<lparr>fpos := nat pos\<rparr>) else None)"

definition platformRead :: "handle \<Rightarrow> nat \<Rightarrow> nat \<Rightarrow> int \<times> char list \<times> handle" where
  "platformRead h objSize objCount =
     (let got = take (objSize * objCount) (drop (fpos h) (content h))
      in (if objSize = 0 then 0 else int (length got div objSize),
          got, h\<lparr>fpos := fpos h + length got\<rparr>))"

text \<open>\<^verbatim>\<open>BAIL_IF_MACRO(!__PHYSFS_platformSeek(in, pos), NULL, 0)\<close>\<close>

definition seekE :: "handle \<Rightarrow> int \<Rightarrow> error + handle" where
  "seekE h pos = (case platformSeek h pos of None \<Rightarrow> Inl IoError | Some h' \<Rightarrow> Inr h')"

text \<open>Reading one object of \<open>n\<close> bytes: \<^verbatim>\<open>__PHYSFS_platformRead(in, buf, n, 1) != 1\<close> fails.\<close>

definition read1 :: "handle \<Rightarrow> nat \<Rightarrow> error + (char list \<times> handle)" where
  "read1 h n = (case platformRead h n 1 of (cnt, bs, h') \<Rightarrow>
                  if cnt \<noteq> 1 then Inl IoError else Inr (bs, h'))"

text \<open>\<^verbatim>\<open>PHYSFS_swapULE32\<close>, \<^verbatim>\<open>PHYSFS_swapULE16\<close>: the value of little-endian bytes.\<close>

fun swapULE :: "char list \<Rightarrow> 'a::len word" where
  "swapULE [] = 0"
| "swapULE (b # bs) = of_char b + push_bit 8 (swapULE bs)"

definition readui32 :: "handle \<Rightarrow> error + (32 word \<times> handle)" where
  "readui32 h = bindE (read1 h 4) (\<lambda>(bs, h'). Inr (swapULE bs, h'))"

definition readui16 :: "handle \<Rightarrow> error + (16 word \<times> handle)" where
  "readui16 h = bindE (read1 h 2) (\<lambda>(bs, h'). Inr (swapULE bs, h'))"

subsection \<open>Symlink eligibility of a central-directory record\<close>

definition zip_version_does_symlinks :: "32 word \<Rightarrow> bool" where
  "zip_version_does_symlinks ver =
     (let hosttype = (ucast (drop_bit 8 ver AND 0xFF) :: 8 word)
      in if hosttype = 0 then False
         else if hosttype = 1 then False
         else if hosttype = 2 then False
         else if hosttype = 4 then False
         else if hosttype = 6 then False
         else if hosttype = 11 then False
         else if hosttype = 14 then False
         else if hosttype = 13 then False
         else if hosttype = 15 then False
         else if hosttype = 18 then False
         else True)"

definition zip_has_symlink_attr :: "ZIPentry \<Rightarrow> 32 word \<Rightarrow> bool" where
  "zip_has_symlink_attr entry extern_attr =
     (let xattr = (ucast (drop_bit 16 extern_attr AND 0xFFFF) :: 16 word)
      in zip_version_does_symlinks (ucast (version entry))
         \<and> uncompressed_size entry > 0
         \<and> xattr AND UNIX_FILETYPE_MASK = UNIX_FILETYPE_SYMLINK)"

text \<open>
  \<^verbatim>\<open>zip_convert_dos_path\<close>: archives made on FAT (host type 0) may use backslashes.
\<close>

definition zip_convert_dos_path :: "ZIPentry \<Rightarrow> string \<Rightarrow> string" where
  "zip_convert_dos_path entry path =
     (let hosttype = (ucast (drop_bit 8 (version entry) AND 0xFF) :: 8 word)
      in if hosttype = 0
         then map (\<lambda>c. if c = CHR 0x5C then CHR ''/'' else c) path
         else path)"

text \<open>The C string held by a buffer: the bytes before the first NUL.\<close>

definition cstring :: "char list \<Rightarrow> string" where
  "cstring bs = takeWhile (\<lambda>c. c \<noteq> NUL) bs"

text \<open>
  \<^verbatim>\<open>zip_dos_time_to_physfs_time\<close> fills a \<^verbatim>\<open>struct tm\<close> and calls the C library's
  \<^verbatim>\<open>mktime\<close>, which depends on the host's time zone: \<open>mktime\<close> is a parameter.
\<close>

record tm =
  tm_year :: int
  tm_mon :: int
  tm_mday :: int
  tm_hour :: int
  tm_min :: int
  tm_sec :: int
  tm_isdst :: int

definition zip_dos_time_to_physfs_time :: "(tm \<Rightarrow> int) \<Rightarrow> 32 word \<Rightarrow> int" where
  "zip_dos_time_to_physfs_time mktime dostime0 =
     (let dosdate = drop_bit 16 dostime0 AND 0xFFFF;
          dostime = dostime0 AND 0xFFFF
      in mktime \<lparr>tm_year = uint (drop_bit 9 dosdate AND 0x7F) + 80,
                 tm_mon = uint (drop_bit 5 dosdate AND 0x0F) - 1,
                 tm_mday = uint (dosdate AND 0x1F),
                 tm_hour = uint (drop_bit 11 dostime AND 0x1F),
                 tm_min = uint (drop_bit 5 dostime AND 0x3F),
                 tm_sec = uint (push_bit 1 dostime AND 0x3E),
                 tm_isdst = -1\<rparr>)"

text \<open>
  \<^verbatim>\<open>zip_load_entry\<close>: one central-directory record, read field by field. The result is the
  entry and the handle placed at the next record.
\<close>

definition zip_load_entry ::
  "(tm \<Rightarrow> int) \<Rightarrow> handle \<Rightarrow> 32 word \<Rightarrow> error + (ZIPentry \<times> handle)" where
  "zip_load_entry mktime h0 ofs_fixup =
     bindE (readui32 h0) (\<lambda>(sig, h).
     if sig \<noteq> ZIP_CENTRAL_DIR_SIG then Inl Corrupted else
     bindE (readui16 h) (\<lambda>(e_version, h).
     bindE (readui16 h) (\<lambda>(e_version_needed, h).
     bindE (readui16 h) (\<lambda>(general_bits, h).
     bindE (readui16 h) (\<lambda>(e_compression_method, h).
     bindE (readui32 h) (\<lambda>(dostime, h).
     bindE (readui32 h) (\<lambda>(e_crc, h).
     bindE (readui32 h) (\<lambda>(e_compressed_size, h).
     bindE (readui32 h) (\<lambda>(e_uncompressed_size, h).
     bindE (readui16 h) (\<lambda>(fnamelen, h).
     bindE (readui16 h) (\<lambda>(extralen, h).
     bindE (readui16 h) (\<lambda>(commentlen, h).
     bindE (readui16 h) (\<lambda>(disk_number_start, h).
     bindE (readui16 h) (\<lambda>(internal_attr, h).
     bindE (readui32 h) (\<lambda>(external_attr, h).
     bindE (readui32 h) (\<lambda>(e_offset, h).
     let entry = \<lparr>name = [], symlink = None, resolved = ZIP_UNRESOLVED_FILE,
                   offset = e_offset + ofs_fixup, version = e_version,
                   version_needed = e_version_needed,
                   compression_method = e_compression_method, crc = e_crc,
                   compressed_size = e_compressed_size,
                   uncompressed_size = e_uncompressed_size,
                   last_mod_time = zip_dos_time_to_physfs_time mktime dostime\<rparr>;
         entry = entry\<lparr>resolved := (if zip_has_symlink_attr entry external_attr
                                      then ZIP_UNRESOLVED_SYMLINK else ZIP_UNRESOLVED_FILE)\<rparr>
     in
     bindE (read1 h (unat fnamelen)) (\<lambda>(bs, h).
     let entry = entry\<lparr>name := zip_convert_dos_path entry (cstring bs)\<rparr>;
         si64 = platformTell h
     in
     bindE (seekE h (si64 + uint extralen + uint commentlen)) (\<lambda>h.
     Inr (entry, h)))))))))))))))))))"

text \<open>
  The host-OS byte of \<^verbatim>\<open>version_made_by\<close>, and three fields of the central-directory
  record at which a handle stands, as bytes of the file: \<^verbatim>\<open>version made by\<close> (bytes 4-5 of
  the record), \<^verbatim>\<open>uncompressed size\<close> (bytes 24-27) and \<^verbatim>\<open>external file attributes\<close>
  (bytes 38-41).
\<close>

definition host_os :: "16 word \<Rightarrow> 8 word" where
  "host_os version_made_by = ucast (drop_bit 8 version_made_by)"

definition version_at :: "handle \<Rightarrow> 16 word" where
  "version_at h = swapULE (take 2 (drop (fpos h + 4) (content h)))"

definition uncompressed_size_at :: "handle \<Rightarrow> 32 word" where
  "uncompressed_size_at h = swapULE (take 4 (drop (fpos h + 24) (content h)))"

definition external_attr_at :: "handle \<Rightarrow> 32 word" where
  "external_attr_at h = swapULE (take 4 (drop (fpos h + 38) (content h)))"

text \<open>
  A central-directory record of a symlink \<^verbatim>\<open>a\<close> made on Unix (host 3), one byte long, with
  mode \<^verbatim>\<open>0120777\<close> in the upper half of the external attributes.
\<close>

definition cdr_symlink :: "char list" where
  "cdr_symlink =
     [CHR 0x50, CHR 0x4B, CHR 0x01, CHR 0x02,  CHR 0x1E, CHR 0x03,  CHR 0x0A, CHR 0x00,
      CHR 0x00, CHR 0x00,  CHR 0x00, CHR 0x00,  CHR 0x00, CHR 0x00, CHR 0x21, CHR 0x00,
      CHR 0x01, CHR 0x02, CHR 0x03, CHR 0x04,  CHR 0x01, CHR 0x00, CHR 0x00, CHR 0x00,
      CHR 0x01, CHR 0x00, CHR 0x00, CHR 0x00,  CHR 0x01, CHR 0x00,  CHR 0x00, CHR 0x00,
      CHR 0x00, CHR 0x00,  CHR 0x00, CHR 0x00,  CHR 0x00, CHR 0x00,
      CHR 0x00, CHR 0x00, CHR 0xFF, CHR 0xA1,  CHR 0x00, CHR 0x00, CHR 0x00, CHR 0x00,
      CHR ''a'']"

text \<open>The same record made on FAT (host 0): the mode bits mean nothing there.\<close>

definition cdr_fat :: "char list" where
  "cdr_fat = cdr_symlink[5 := CHR 0x00]"

subsection \<open>C strings and the entry table\<close>

text \<open>
  Reading \<^verbatim>\<open>s[i]\<close> of a C string: the terminator sits at index \<open>length s\<close>, anything behind
  it is outside the string.
\<close>

definition cstr_at :: "string \<Rightarrow> nat \<Rightarrow> error + char" where
  "cstr_at s i = (if i < length s then Inr (s ! i)
                  else if i = length s then Inr NUL
                  else Inl OutOfBounds)"

text \<open>\<^verbatim>\<open>strcmp\<close> compares bytes as unsigned values; only the sign of the result is used.\<close>

fun strcmp :: "string \<Rightarrow> string \<Rightarrow> int" where
  "strcmp [] [] = 0"
| "strcmp [] (y # ys) = -1"
| "strcmp (x # xs) [] = 1"
| "strcmp (x # xs) (y # ys) =
     (if x = y then strcmp xs ys
      else if (of_char x :: nat) < of_char y then -1 else 1)"

definition strncmp :: "string \<Rightarrow> string \<Rightarrow> nat \<Rightarrow> int" where
  "strncmp s t n = strcmp (take n s) (take n t)"

text \<open>\<^verbatim>\<open>strchr(s, c)\<close>: the index of the first \<open>c\<close> in \<open>s\<close>, or NULL.\<close>

fun strchr :: "string \<Rightarrow> char \<Rightarrow> nat option" where
  "strchr [] c = None"
| "strchr (x # xs) c = (if x = c then Some 0 else map_option Suc (strchr xs c))"

text \<open>
  A plain \<^verbatim>\<open>char\<close> is signed on the x86 targets of this code: the value of a byte from 128
  up is negative.
\<close>

definition char_val :: "char \<Rightarrow> int" where
  "char_val c = (let n = of_char c in if n < 128 then n else n - 256)"

text \<open>\<^verbatim>\<open>info->entries[i]\<close>.\<close>

definition entry_at :: "ZIPinfo \<Rightarrow> int \<Rightarrow> error + ZIPentry" where
  "entry_at info i = (if 0 \<le> i \<and> i < int (length info) then Inr (info ! nat i)
                      else Inl OutOfBounds)"

subsection \<open>Lookup\<close>

function find_entry_loop :: "ZIPinfo \<Rightarrow> string \<Rightarrow> int \<Rightarrow> int \<Rightarrow> error + nat" where
  "find_entry_loop a path lo hi =
     (if lo \<le> hi then
        (let middle = lo + (hi - lo) div 2
         in case entry_at a middle of
              Inl e \<Rightarrow> Inl e
            | Inr ent \<Rightarrow>
                (let rc = strcmp path (name ent)
                 in if rc = 0 then Inr (nat middle)
                    else if rc > 0 then find_entry_loop a path (middle + 1) hi
                    else find_entry_loop a path lo (middle - 1)))
      else Inl NoSuchFile)"
  by pat_completeness auto
termination
  by (relation "measure (\<lambda>(a, path, lo, hi). nat (hi - lo + 1))") auto

definition zip_find_entry :: "ZIPinfo \<Rightarrow> string \<Rightarrow> error + nat" where
  "zip_find_entry info path = find_entry_loop info path 0 (int (length info) - 1)"

function find_start_loop ::
  "ZIPinfo \<Rightarrow> string \<Rightarrow> nat \<Rightarrow> bool \<Rightarrow> int \<Rightarrow> int \<Rightarrow> int \<Rightarrow> error + int" where
  "find_start_loop info path dlen stop_on_first_find lo hi retval =
     (if lo \<le> hi then
        (let middle = lo + (hi - lo) div 2
         in case entry_at info middle of
              Inl e \<Rightarrow> Inl e
            | Inr ent \<Rightarrow>
                (let rc = strncmp path (name ent) dlen
                 in if rc = 0 then
                      (case cstr_at (name ent) dlen of
                         Inl e \<Rightarrow> Inl e
                       | Inr ch \<Rightarrow>
                           if char_val ch < char_val CHR ''/'' then
                             find_start_loop info path dlen stop_on_first_find lo (middle - 1) retval
                           else if char_val ch > char_val CHR ''/'' then
                             find_start_loop info path dlen stop_on_first_find (middle + 1) hi retval
                           else
                             (case cstr_at (name ent) (dlen + 1) of
                                Inl e \<Rightarrow> Inl e
                              | Inr c1 \<Rightarrow>
                                  if c1 = NUL \<or> stop_on_first_find then Inr middle
                                  else find_start_loop info path dlen stop_on_first_find
                                         lo (middle - 1) middle))
                    else if rc > 0 then
                      find_start_loop info path dlen stop_on_first_find (middle + 1) hi retval
                    else
                      find_start_loop info path dlen stop_on_first_find lo (middle - 1) retval))
      else Inr retval)"
  by pat_completeness auto
termination
  by (relation "measure (\<lambda>(info, path, dlen, stop, lo, hi, retval). nat (hi - lo + 1))") auto

definition zip_find_start_of_dir :: "ZIPinfo \<Rightarrow> string \<Rightarrow> bool \<Rightarrow> error + int" where
  "zip_find_start_of_dir info path stop_on_first_find =
     (let dlen = length path
      in if path = [] then Inr 0
         else
           (let dlen = (if dlen > 0 \<and> path ! (dlen - 1) = CHR ''/'' then dlen - 1 else dlen)
            in find_start_loop info path dlen stop_on_first_find 0 (int (length info)) (-1)))"

subsection \<open>Enumeration\<close>

definition zip_entry_is_symlink :: "ZIPentry \<Rightarrow> bool" where
  "zip_entry_is_symlink entry =
     (resolved entry = ZIP_UNRESOLVED_SYMLINK \<or> resolved entry = ZIP_BROKEN_SYMLINK
      \<or> symlink entry \<noteq> None)"

text \<open>The inner loop of \<^verbatim>\<open>ZIP_enumerateFiles\<close> that runs after a subdirectory was added.\<close>

function skip_children :: "ZIPinfo \<Rightarrow> string \<Rightarrow> nat \<Rightarrow> nat \<Rightarrow> error + nat" where
  "skip_children info dirname dlen i =
     (case entry_at info (int i) of
        Inl e \<Rightarrow> Inl e
      | Inr ent \<Rightarrow>
          if strncmp (name ent) dirname dlen = 0 then
            (case cstr_at (name ent) dlen of
               Inl e \<Rightarrow> Inl e
             | Inr ch \<Rightarrow> if ch = CHR ''/'' then skip_children info dirname dlen (i + 1)
                         else Inr i)
          else Inr i)"
  by pat_completeness auto
termination
  by (relation "measure (\<lambda>(info, dirname, dlen, i). length info - i)")
     (auto simp add: entry_at_def split: if_splits)

function enumerate_loop ::
  "ZIPinfo \<Rightarrow> string \<Rightarrow> nat \<Rightarrow> bool \<Rightarrow> nat \<Rightarrow> string list \<Rightarrow> error + string list" where
  "enumerate_loop info dirname dlen omitSymLinks i retval =
     (case entry_at info (int i) of
        Inl e \<Rightarrow> Inl e
      | Inr entry \<Rightarrow>
          (let ofs = dlen + (if dlen > 0 then 1 else 0)
           in if omitSymLinks \<and> zip_entry_is_symlink entry then
                enumerate_loop info dirname dlen omitSymLinks (i + 1) retval
              else
                (case cstr_at (name entry) ofs of
                   Inl e \<Rightarrow> Inl e
                 | Inr c \<Rightarrow>
                     if c = NUL then
                       enumerate_loop info dirname dlen omitSymLinks (i + 1) retval
                     else
                       (let add_file = drop ofs (name entry);
                            slash = strchr add_file CHR ''/'';
                            strsize = (case slash of Some k \<Rightarrow> k | None \<Rightarrow> length add_file);
                            retval' = retval @ [take strsize add_file]
                        in if int (i + 1) \<ge> int (length info) then Inr retval'
                           else
                             (case entry_at info (int (i + 1)) of
                                Inl e \<Rightarrow> Inl e
                              | Inr next \<Rightarrow>
                                  if dlen > 0 \<and> strncmp (name next) dirname dlen \<noteq> 0
                                  then Inr retval'
                                  else if slash \<noteq> None then
                                    (case skip_children info dirname dlen (i + 1) of
                                       Inl e \<Rightarrow> Inl e
                                     | Inr i' \<Rightarrow>
                                         enumerate_loop info dirname dlen omitSymLinks
                                           i' retval')
                                  else enumerate_loop info dirname dlen omitSymLinks
                                         (i + 1) retval')))))"
  by pat_completeness auto
termination
proof -
  have skip: "skip_children info dirname dlen i = Inr i' \<Longrightarrow> i \<le> i'"
    for info dirname dlen i i'
  proof (induction info dirname dlen i rule: skip_children.induct)
    case (1 info dirname dlen i)
    from "1.prems" show ?case
      apply (subst (asm) skip_children.simps)
      apply (simp del: skip_children.simps split: sum.splits if_splits)
      using "1.IH" apply (fastforce simp del: skip_children.simps)
      done
  qed
  show ?thesis
  proof (relation "measure (\<lambda>(info, dirname, dlen, omit, i, retval). length info - i)")
    fix info :: ZIPinfo and dirname dlen i i' and entry :: ZIPentry
    assume "entry_at info (int i) = Inr entry"
    then have lt: "i < length info"
      by (simp add: entry_at_def split: if_splits)
    assume "skip_children info dirname dlen (i + 1) = Inr i'"
    then have "i + 1 \<le> i'" by (rule skip)
    with lt show "((info, dirname, dlen, omit, i', retval'), (info, dirname, dlen, omit, i, retval))
          \<in> measure (\<lambda>(info, dirname, dlen, omit, i, retval). length info - i)"
      for omit retval retval'
      by simp
  qed (simp_all add: entry_at_def split: if_splits)
qed

definition ZIP_enumerateFiles :: "ZIPinfo \<Rightarrow> string \<Rightarrow> bool \<Rightarrow> error + string list" where
  "ZIP_enumerateFiles info dirname omitSymLinks =
     (let dlen = length dirname
      in case cstr_at dirname (if dlen = 0 then 2 ^ 32 - 1 else dlen - 1) of
           Inl e \<Rightarrow> Inl e
         | Inr ch \<Rightarrow>
             (let dlen = (if ch = CHR ''/'' then dlen - 1 else dlen)
              in case zip_find_start_of_dir info dirname False of
                   Inl e \<Rightarrow> Inl e
                 | Inr i \<Rightarrow>
                     if i = -1 then Inl NoSuchFile
                     else enumerate_loop info dirname dlen omitSymLinks (nat i) []))"

subsection \<open>Locating the end-of-central-directory record\<close>

text \<open>
  The \<^verbatim>\<open>for\<close> loop of \<^verbatim>\<open>zip_find_end_of_central_dir\<close>: from \<open>i\<close> down to 1, looking for the
  bytes \<^verbatim>\<open>50 4B 05 06\<close> at \<^verbatim>\<open>buf[i .. i+3]\<close>.
\<close>

function scan_sig :: "char list \<Rightarrow> int \<Rightarrow> int option" where
  "scan_sig buf i =
     (if i > 0 then
        (if take 4 (drop (nat i) buf) = [CHR 0x50, CHR 0x4B, CHR 0x05, CHR 0x06]
         then Some i
         else scan_sig buf (i - 1))
      else None)"
  by pat_completeness auto
termination
  by (relation "measure (\<lambda>(buf, i). nat i)") auto

text \<open>
  The \<^verbatim>\<open>while\<close> loop. After the first window, 252 fresh bytes are read and the first four
  bytes of the previous window (\<open>extra\<close>) are put behind them.
\<close>

function find_eocd_loop ::
  "handle \<Rightarrow> int \<Rightarrow> int \<Rightarrow> int \<Rightarrow> int \<Rightarrow> char list \<Rightarrow> error + int" where
  "find_eocd_loop h filelen filepos maxread totalread extra =
     (if totalread < filelen \<and> totalread < 65557 then
        (case seekE h filepos of
           Inl e \<Rightarrow> Inl e
         | Inr h1 \<Rightarrow>
             (case read1 h1 (nat (if totalread \<noteq> 0 then maxread - 4 else maxread)) of
                Inl e \<Rightarrow> Inl e
              | Inr (bs, h2) \<Rightarrow>
                  (let buf = (if totalread \<noteq> 0 then bs @ extra else bs);
                       totalread' = totalread + (if totalread \<noteq> 0 then maxread - 4 else maxread);
                       extra' = take 4 buf
                   in case scan_sig buf (maxread - 4) of
                        Some i \<Rightarrow> Inr (filepos + i)
                      | None \<Rightarrow>
                          find_eocd_loop h2 filelen (filepos - (maxread - 4)) maxread
                            totalread' extra')))
      else Inl NotAnArchive)"
  by pat_completeness auto
termination
proof (relation "measure (\<lambda>(h, filelen, filepos, maxread, totalread, extra).
                            nat (65557 - totalread))", goal_cases)
  case 1
  show ?case by simp
next
  case (2 h filelen filepos maxread totalread extra h1 x bs h2)
  from 2 have "nat (if totalread \<noteq> 0 then maxread - 4 else maxread) \<noteq> 0"
    by (auto simp add: read1_def platformRead_def Let_def split: if_splits)
  with 2 show ?case
    by (auto split: if_splits)
qed

definition zip_find_end_of_central_dir :: "handle \<Rightarrow> error + (int \<times> int)" where
  "zip_find_end_of_central_dir h =
     (let filelen = platformFileLength h;
          filepos = (if 256 < filelen then filelen - 256 else 0);
          maxread = (if 256 < filelen then 256 else filelen)
      in case find_eocd_loop h filelen filepos maxread 0 [] of
           Inl e \<Rightarrow> Inl e
         | Inr pos \<Rightarrow> Inr (pos, filelen))"

text \<open>
  \<^verbatim>\<open>ZIP_isArchive\<close> of a readable file with the given bytes. The second test is
  \<^verbatim>\<open>zip_find_end_of_central_dir(in, NULL) == -1\<close>.
\<close>

definition ZIP_isArchive :: "char list \<Rightarrow> bool" where
  "ZIP_isArchive bytes =
     (let h = platformOpenRead bytes
      in case readui32 h of
           Inl e \<Rightarrow> False
         | Inr (sig, h1) \<Rightarrow>
             if sig = ZIP_LOCAL_FILE_SIG then True
             else (case zip_find_end_of_central_dir h1 of
                     Inl e \<Rightarrow> True
                   | Inr p \<Rightarrow> False))"

text \<open>An occurrence of the signature \<^verbatim>\<open>0x06054b50\<close> at offset \<open>p\<close> of a file.\<close>

definition eocd_sig_at :: "char list \<Rightarrow> nat \<Rightarrow> bool" where
  "eocd_sig_at bytes p = (take 4 (drop p bytes) = [CHR 0x50, CHR 0x4B, CHR 0x05, CHR 0x06])"

text \<open>The empty archive: the 22 bytes of an end-of-central-directory record and nothing else.\<close>

definition empty_zip :: "char list" where
  "empty_zip =
     [CHR 0x50, CHR 0x4B, CHR 0x05, CHR 0x06,  CHR 0x00, CHR 0x00,  CHR 0x00, CHR 0x00,
      CHR 0x00, CHR 0x00,  CHR 0x00, CHR 0x00,  CHR 0x00, CHR 0x00, CHR 0x00, CHR 0x00,
      CHR 0x00, CHR 0x00, CHR 0x00, CHR 0x00,  CHR 0x00, CHR 0x00]"

text \<open>The same record behind four bytes of other data, and eight bytes that are no archive.\<close>

definition prefixed_zip :: "char list" where
  "prefixed_zip = ''MZMZ'' @ empty_zip"

definition no_zip :: "char list" where
  "no_zip = ''AAAAAAAA''"

subsection \<open>Sorting the entry table\<close>














subsection \<open>Mounting\<close>






subsection \<open>Symlink targets\<close>

text \<open>
  \<^verbatim>\<open>zip_expand_symlink_path\<close> edits the target in place: \<open>path\<close> is the whole buffer, with its
  terminator and whatever lies behind it, \<open>ptr\<close> and \<open>prevptr\<close> are indices into it.
\<close>

definition buf_at :: "char list \<Rightarrow> nat \<Rightarrow> error + char" where
  "buf_at buf i = (if i < length buf then Inr (buf ! i) else Inl OutOfBounds)"

definition buf_set :: "char list \<Rightarrow> nat \<Rightarrow> char \<Rightarrow> error + char list" where
  "buf_set buf i c = (if i < length buf then Inr (buf[i := c]) else Inl OutOfBounds)"

function buf_strchr :: "char list \<Rightarrow> nat \<Rightarrow> char \<Rightarrow> error + nat option" where
  "buf_strchr buf p c =
     (if p < length buf then
        (if buf ! p = c then Inr (Some p)
         else if buf ! p = NUL then Inr None
         else buf_strchr buf (p + 1) c)
      else Inl OutOfBounds)"
  by pat_completeness auto
termination
  by (relation "measure (\<lambda>(buf, p, c). length buf - p)") auto

function buf_strlen :: "char list \<Rightarrow> nat \<Rightarrow> error + nat" where
  "buf_strlen buf p =
     (if p < length buf then
        (if buf ! p = NUL then Inr 0
         else bindE (buf_strlen buf (p + 1)) (\<lambda>n. Inr (n + 1)))
      else Inl OutOfBounds)"
  by pat_completeness auto
termination
  by (relation "measure (\<lambda>(buf, p). length buf - p)") auto

definition buf_memmove :: "char list \<Rightarrow> nat \<Rightarrow> nat \<Rightarrow> nat \<Rightarrow> error + char list" where
  "buf_memmove buf dst src n =
     (if src + n \<le> length buf \<and> dst + n \<le> length buf
      then Inr (take dst buf @ take n (drop src buf) @ drop (dst + n) buf)
      else Inl OutOfBounds)"

text \<open>
  \<^verbatim>\<open>while (prevptr != path) { prevptr--; if (*prevptr == '/') { prevptr++; break; } }\<close>
\<close>

fun back_up :: "char list \<Rightarrow> nat \<Rightarrow> error + nat" where
  "back_up buf 0 = Inr 0"
| "back_up buf (Suc p) =
     bindE (buf_at buf p) (\<lambda>c. if c = CHR ''/'' then Inr (Suc p) else back_up buf p)"

text \<open>
  One turn of the \<^verbatim>\<open>while (1)\<close> loop once \<^verbatim>\<open>strchr\<close> has found a slash at \<open>ptr\<close>: the new
  buffer, \<open>ptr\<close> and \<open>prevptr\<close>.
\<close>

definition expand_body :: "char list \<Rightarrow> nat \<Rightarrow> nat \<Rightarrow> error + (char list \<times> nat \<times> nat)" where
  "expand_body path ptr prevptr =
     bindE (buf_at path (ptr + 1)) (\<lambda>c1.
     if c1 = CHR ''.'' then
       bindE (buf_at path (ptr + 2)) (\<lambda>c2.
       if c2 = CHR ''/'' then
         bindE (buf_strlen path (ptr + 2)) (\<lambda>n.
         bindE (buf_memmove path ptr (ptr + 2) (n + 1)) (\<lambda>path'.
         Inr (path', ptr, prevptr)))
       else if c2 = NUL then
         bindE (buf_set path ptr NUL) (\<lambda>path'.
         Inr (path', ptr, prevptr))
       else if c2 = CHR ''.'' then
         bindE (buf_at path (ptr + 3)) (\<lambda>c3.
         bindE (if c3 = CHR ''/'' then
                  bindE (buf_strlen path (ptr + 4)) (\<lambda>n.
                  bindE (buf_memmove path prevptr (ptr + 4) (n + 1)) (\<lambda>path'.
                  bindE (back_up path' prevptr) (\<lambda>prevptr'.
                  Inr (path', prevptr, prevptr'))))
                else Inr (path, ptr, prevptr)) (\<lambda>(path1, ptr1, prevptr1).
         bindE (buf_at path1 (ptr1 + 3)) (\<lambda>c.
         if c = NUL then
           bindE (buf_set path1 prevptr1 NUL) (\<lambda>path'.
           Inr (path', ptr1, prevptr1))
         else Inr (path1, ptr1, prevptr1))))
       else Inr (path, ptr, prevptr))
     else Inr (path, ptr, ptr))"

partial_function (option) expand_loop ::
  "char list \<Rightarrow> nat \<Rightarrow> nat \<Rightarrow> (error + char list) option" where
  "expand_loop path ptr prevptr =
     (case buf_strchr path ptr CHR ''/'' of
        Inl e \<Rightarrow> Some (Inl e)
      | Inr None \<Rightarrow> Some (Inr path)
      | Inr (Some ptr') \<Rightarrow>
          (case expand_body path ptr' prevptr of
             Inl e \<Rightarrow> Some (Inl e)
           | Inr (path', ptr'', prevptr') \<Rightarrow> expand_loop path' ptr'' prevptr'))"

definition zip_expand_symlink_path :: "char list \<Rightarrow> (error + char list) option" where
  "zip_expand_symlink_path path = expand_loop path 0 0"

subsection \<open>zlib\<close>

text \<open>
  zlib is not part of \<^verbatim>\<open>zip.c\<close>: the inflater is a parameter. \<open>z_init\<close> is
  \<^verbatim>\<open>inflateInit2(&s, -MAX_WBITS)\<close>, its return code and a fresh state; \<open>z_inflate\<close> is
  \<^verbatim>\<open>inflate\<close>, from a state, the input at \<^verbatim>\<open>next_in\<close>, \<^verbatim>\<open>avail_out\<close> and the flush mode
  to the return code, the new state, the number of input bytes used and the output written.
\<close>

record 'z zlib =
  z_init :: "int \<times> 'z"
  z_inflate :: "'z \<Rightarrow> char list \<Rightarrow> nat \<Rightarrow> int \<Rightarrow> int \<times> 'z \<times> nat \<times> char list"

definition Z_OK :: int where
  "Z_OK = 0"

definition Z_STREAM_END :: int where
  "Z_STREAM_END = 1"

definition Z_SYNC_FLUSH :: int where
  "Z_SYNC_FLUSH = 2"

definition Z_FINISH :: int where
  "Z_FINISH = 4"

subsection \<open>Resolving an entry\<close>

definition zip_parse_local :: "handle \<Rightarrow> ZIPentry \<Rightarrow> error + ZIPentry" where
  "zip_parse_local h0 entry =
     bindE (seekE h0 (uint (offset entry))) (\<lambda>h.
     bindE (readui32 h) (\<lambda>(ui32, h).
     if ui32 \<noteq> ZIP_LOCAL_FILE_SIG then Inl Corrupted else
     bindE (readui16 h) (\<lambda>(ui16, h).
     if ui16 \<noteq> version_needed entry then Inl Corrupted else
     bindE (readui16 h) (\<lambda>(general_bits, h).
     bindE (readui16 h) (\<lambda>(ui16, h).
     if ui16 \<noteq> compression_method entry then Inl Corrupted else
     bindE (readui32 h) (\<lambda>(date_time, h).
     bindE (readui32 h) (\<lambda>(ui32, h).
     if ui32 \<noteq> crc entry then Inl Corrupted else
     bindE (readui32 h) (\<lambda>(ui32, h).
     if ui32 \<noteq> compressed_size entry then Inl Corrupted else
     bindE (readui32 h) (\<lambda>(ui32, h).
     if ui32 \<noteq> uncompressed_size entry then Inl Corrupted else
     bindE (readui16 h) (\<lambda>(fnamelen, h).
     bindE (readui16 h) (\<lambda>(extralen, h).
     Inr (entry\<lparr>offset := offset entry + ucast fnamelen + ucast extralen + 30\<rparr>))))))))))))"

text \<open>The entries still to be resolved: \<^verbatim>\<open>zip_resolve\<close> recurses only into these.\<close>

definition unresolved :: "ZIPentry \<Rightarrow> nat" where
  "unresolved e = (if resolved e = ZIP_UNRESOLVED_FILE \<or> resolved e = ZIP_UNRESOLVED_SYMLINK
                   then 1 else 0)"

text \<open>
  The target of a symlink as \<^verbatim>\<open>zip_resolve_symlink\<close> reads it into \<^verbatim>\<open>path\<close>: \<open>size\<close> bytes
  and the terminator. Bytes the inflater leaves unwritten are indeterminate in C and NUL here.
\<close>

definition read_link_target :: "'z zlib \<Rightarrow> handle \<Rightarrow> ZIPentry \<Rightarrow> error + char list" where
  "read_link_target zl h entry =
     (let size = unat (uncompressed_size entry)
      in if compression_method entry = COMPMETH_NONE then
           bindE (read1 h size) (\<lambda>(bs, h'). Inr (bs @ [NUL]))
         else
           bindE (read1 h (unat (compressed_size entry))) (\<lambda>(compressed, h').
           case z_init zl of (rc0, z) \<Rightarrow>
             if rc0 \<noteq> Z_OK then Inl (ZlibError rc0)
             else (case z_inflate zl z compressed size Z_FINISH of (rc, z', used, out) \<Rightarrow>
                     if rc = Z_OK \<or> rc = Z_STREAM_END
                     then Inr (take size (out @ replicate size NUL) @ [NUL])
                     else Inl (ZlibError rc))))"

text \<open>\<^verbatim>\<open>zip_convert_dos_path\<close> on a buffer works up to the terminator.\<close>

definition convert_dos_buf :: "ZIPentry \<Rightarrow> char list \<Rightarrow> char list" where
  "convert_dos_buf entry buf =
     zip_convert_dos_path entry (cstring buf) @ drop (length (cstring buf)) buf"

text \<open>
  \<^verbatim>\<open>zip_resolve\<close>, \<^verbatim>\<open>zip_resolve_symlink\<close> and \<^verbatim>\<open>zip_follow_symlink\<close> call each other. Each
  returns its C result (\<open>Inr\<close>, or \<open>Inl\<close> with the error that was set) and the entry table as
  it has changed; \<open>None\<close> is a call that does not return.
\<close>

function zip_resolve ::
    "'z zlib \<Rightarrow> handle \<Rightarrow> ZIPinfo \<Rightarrow> nat \<Rightarrow> ((error + unit) \<times> ZIPinfo) option"
  and zip_resolve_symlink ::
    "'z zlib \<Rightarrow> handle \<Rightarrow> ZIPinfo \<Rightarrow> nat \<Rightarrow> ((error + unit) \<times> ZIPinfo) option"
  and zip_follow_symlink ::
    "'z zlib \<Rightarrow> handle \<Rightarrow> ZIPinfo \<Rightarrow> char list \<Rightarrow> ((error + nat) \<times> ZIPinfo) option"
where
  "zip_resolve zl h info idx =
     (if idx < length info then
        (let entry = info ! idx; resolve_type = resolved entry
         in if resolve_type = ZIP_BROKEN_FILE then Some (Inl Corrupted, info)
            else if resolve_type = ZIP_BROKEN_SYMLINK then Some (Inl Corrupted, info)
            else if resolve_type = ZIP_RESOLVING then Some (Inl SymlinkLoop, info)
            else if resolve_type \<noteq> ZIP_RESOLVED then
              (let resolving = entry\<lparr>resolved := ZIP_RESOLVING\<rparr>
               in case (case zip_parse_local h resolving of
                          Inl e \<Rightarrow> Some (Inl e, info[idx := resolving])
                        | Inr parsed \<Rightarrow>
                            if resolve_type = ZIP_UNRESOLVED_SYMLINK
                            then zip_resolve_symlink zl h (info[idx := parsed]) idx
                            else Some (Inr (), info[idx := parsed])) of
                    None \<Rightarrow> None
                  | Some (retval, info') \<Rightarrow>
                      Some (retval,
                            info'[idx := (info' ! idx)\<lparr>resolved :=
                               (if resolve_type = ZIP_UNRESOLVED_SYMLINK then
                                  (if isl retval then ZIP_BROKEN_SYMLINK else ZIP_RESOLVED)
                                else if resolve_type = ZIP_UNRESOLVED_FILE then
                                  (if isl retval then ZIP_BROKEN_FILE else ZIP_RESOLVED)
                                else resolved (info' ! idx))\<rparr>]))
            else Some (Inr (), info))
      else Some (Inl OutOfBounds, info))"
| "zip_resolve_symlink zl h info idx =
     (if idx < length info then
        (let entry = info ! idx
         in case seekE h (uint (offset entry)) of
              Inl e \<Rightarrow> Some (Inl e, info)
            | Inr h' \<Rightarrow>
                (case read_link_target zl h' entry of
                   Inl e \<Rightarrow> Some (if symlink entry \<noteq> None then Inr () else Inl e, info)
                 | Inr path \<Rightarrow>
                     (case zip_follow_symlink zl h info (convert_dos_buf entry path) of
                        None \<Rightarrow> None
                      | Some (Inl e, info') \<Rightarrow>
                          Some (Inl e, info'[idx := (info' ! idx)\<lparr>symlink := None\<rparr>])
                      | Some (Inr target, info') \<Rightarrow>
                          Some (Inr (), info'[idx := (info' ! idx)\<lparr>symlink := Some target\<rparr>]))))
      else Some (Inl OutOfBounds, info))"
| "zip_follow_symlink zl h info path =
     (case zip_expand_symlink_path path of
        None \<Rightarrow> None
      | Some (Inl e) \<Rightarrow> Some (Inl e, info)
      | Some (Inr path') \<Rightarrow>
          (case zip_find_entry info (cstring path') of
             Inl e \<Rightarrow> Some (Inl e, info)
           | Inr entry \<Rightarrow>
               (case zip_resolve zl h info entry of
                  None \<Rightarrow> None
                | Some (Inl e, info') \<Rightarrow> Some (Inl e, info')
                | Some (Inr u, info') \<Rightarrow>
                    Some (Inr (case symlink (info' ! entry) of
                                 Some target \<Rightarrow> target
                               | None \<Rightarrow> entry), info'))))"
  by pat_completeness auto

termination
proof -
  have parse: "zip_parse_local h e = Inr e' \<Longrightarrow> resolved e' = resolved e" for h e e'
    unfolding zip_parse_local_def
    by ((erule_tac bindE_InrE, (clarsimp split: if_splits)?)+)
  have upd: "idx < length info \<Longrightarrow> unresolved (info ! idx) = 1 \<Longrightarrow> unresolved e' = 0
               \<Longrightarrow> sum_list (map unresolved (info[idx := e'])) < sum_list (map unresolved info)"
    for info :: ZIPinfo and idx e'
  proof (induction info arbitrary: idx)
    case Nil
    then show ?case by simp
  next
    case (Cons a info)
    then show ?case by (cases idx) auto
  qed
  show ?thesis
  proof (relation "measures
      [\<lambda>x. case x of Inl (zl, h, info, idx) \<Rightarrow> sum_list (map unresolved info)
            | Inr (Inl (zl, h, info, idx)) \<Rightarrow> sum_list (map unresolved info)
            | Inr (Inr (zl, h, info, path)) \<Rightarrow> sum_list (map unresolved info),
       \<lambda>x. case x of Inl a \<Rightarrow> 0 | Inr (Inl a) \<Rightarrow> 2 | Inr (Inr a) \<Rightarrow> 1]", goal_cases)
    case 1
    show ?case by simp
  next
    case (2 zl h info idx entry resolve_type resolving parsed)
    from 2 have "resolved parsed = ZIP_RESOLVING"
      using parse [of h resolving parsed] by simp
    then have "unresolved parsed = 0" by (simp add: unresolved_def)
    moreover from 2 have "unresolved (info ! idx) = 1" by (simp add: unresolved_def)
    ultimately show ?case
      using 2 upd [of idx info parsed] by simp
  next
    case 3
    then show ?case by simp
  next
    case 4
    then show ?case by simp
  qed
qed

text \<open>
  Entries whose resolution has failed, and tables between which no such entry changes its
  state.
\<close>

definition broken :: "ZIPentry \<Rightarrow> bool" where
  "broken e = (resolved e = ZIP_BROKEN_FILE \<or> resolved e = ZIP_BROKEN_SYMLINK)"

definition keeps :: "ZIPinfo \<Rightarrow> ZIPinfo \<Rightarrow> bool" where
  "keeps info info' =
     (length info' = length info
      \<and> (\<forall>i < length info. broken (info ! i) \<longrightarrow> resolved (info' ! i) = resolved (info ! i)))"

subsection \<open>Open files\<close>

text \<open>
  The state of a \<^verbatim>\<open>z_stream\<close> that \<^verbatim>\<open>zip.c\<close> looks at: the input waiting at \<^verbatim>\<open>next_in\<close>
  (\<^verbatim>\<open>avail_in\<close> is its length), \<^verbatim>\<open>total_out\<close>, and the inflater's own state.
\<close>

record 'z z_stream =
  next_in :: "char list"
  total_out :: nat
  zstate :: 'z

text \<open>
  A \<^verbatim>\<open>ZIPfileinfo\<close>. \<open>entry\<close> is the entry the file reads, which is resolved and does not
  change while the file is open; \<open>stream\<close> is there for a compressed entry only.
\<close>

record 'z ZIPfileinfo =
  entry :: ZIPentry
  handle :: handle
  compressed_position :: "32 word"
  uncompressed_position :: "32 word"
  stream :: "'z z_stream option"

definition zip_get_file_handle ::
  "'z zlib \<Rightarrow> char list \<Rightarrow> ZIPinfo \<Rightarrow> nat \<Rightarrow> ((error + handle) \<times> ZIPinfo) option" where
  "zip_get_file_handle zl fn info ent =
     (let retval = platformOpenRead fn
      in case zip_resolve zl retval info ent of
           None \<Rightarrow> None
         | Some (Inl e, info') \<Rightarrow> Some (Inl e, info')
         | Some (Inr u, info') \<Rightarrow>
             (let ofs = (case symlink (info' ! ent) of
                           Some target \<Rightarrow> offset (info' ! target)
                         | None \<Rightarrow> offset (info' ! ent))
              in Some (seekE retval (uint ofs), info')))"

text \<open>
  \<^verbatim>\<open>ZIP_openRead\<close> on the archive with the given bytes. It returns the open file, or the
  error that was set, and the entry table as resolution has left it.
\<close>

definition ZIP_openRead ::
  "'z zlib \<Rightarrow> char list \<Rightarrow> ZIPinfo \<Rightarrow> string \<Rightarrow> ((error + 'z ZIPfileinfo) \<times> ZIPinfo) option" where
  "ZIP_openRead zl archive info filename =
     (case zip_find_entry info filename of
        Inl e \<Rightarrow> Some (Inl e, info)
      | Inr ent \<Rightarrow>
          (case zip_get_file_handle zl archive info ent of
             None \<Rightarrow> None
           | Some (Inl e, info') \<Rightarrow> Some (Inl e, info')
           | Some (Inr h, info') \<Rightarrow>
               (let target = (case symlink (info' ! ent) of
                                Some t \<Rightarrow> info' ! t
                              | None \<Rightarrow> info' ! ent);
                    finfo = \<lparr>entry = target, handle = h, compressed_position = 0,
                             uncompressed_position = 0, stream = None\<rparr>
                in if compression_method target \<noteq> COMPMETH_NONE then
                     (case z_init zl of (rc, z) \<Rightarrow>
                        if rc \<noteq> Z_OK then Some (Inl (ZlibError rc), info')
                        else Some (Inr (finfo\<lparr>stream :=
                                     Some \<lparr>next_in = [], total_out = 0, zstate = z\<rparr>\<rparr>), info'))
                   else Some (Inr finfo, info'))))"

text \<open>
  The \<^verbatim>\<open>while (retval < maxread)\<close> loop of \<^verbatim>\<open>ZIP_read\<close> for a compressed entry. It carries
  the file, \<open>retval\<close>, the bytes put into \<^verbatim>\<open>buf\<close> so far and the error set by \<^verbatim>\<open>zlib_err\<close>;
  \<^verbatim>\<open>avail_out\<close> is what is left of \<open>avail_out0\<close>.
\<close>

partial_function (option) inflate_loop ::
  "'z zlib \<Rightarrow> 'z ZIPfileinfo \<Rightarrow> 'z z_stream \<Rightarrow> int \<Rightarrow> nat \<Rightarrow> int \<Rightarrow> char list \<Rightarrow>
     ('z ZIPfileinfo \<times> 'z z_stream \<times> int \<times> char list \<times> error option) option" where
  "inflate_loop zl finfo strm maxread avail_out0 retval out =
     (if retval < maxread then
        (let br = uint (compressed_size (entry finfo) - compressed_position finfo);
             refill = (if next_in strm = [] \<and> br > 0
                       then Some (platformRead (handle finfo) 1
                                    (nat (if br > int ZIP_READBUFSIZE then int ZIP_READBUFSIZE
                                          else br)))
                       else None)
         in case refill of
              Some (cnt, bytes, h') \<Rightarrow>
                if cnt \<le> 0 then Some (finfo\<lparr>handle := h'\<rparr>, strm, retval, out, None)
                else
                  (let finfo' = finfo\<lparr>handle := h',
                                 compressed_position := compressed_position finfo + word_of_int cnt\<rparr>;
                       strm' = strm\<lparr>next_in := bytes\<rparr>
                   in case z_inflate zl (zstate strm') (next_in strm')
                             (avail_out0 - length out) Z_SYNC_FLUSH of
                        (rc, z', used, written) \<Rightarrow>
                          (let w = take (avail_out0 - length out) written;
                               strm'' = \<lparr>next_in = drop used (next_in strm'),
                                          total_out = total_out strm' + length w, zstate = z'\<rparr>
                           in if rc \<noteq> Z_OK
                              then Some (finfo', strm'', retval + int (length w), out @ w,
                                         if rc = Z_STREAM_END then None else Some (ZlibError rc))
                              else inflate_loop zl finfo' strm'' maxread avail_out0
                                     (retval + int (length w)) (out @ w)))
            | None \<Rightarrow>
                (case z_inflate zl (zstate strm) (next_in strm)
                        (avail_out0 - length out) Z_SYNC_FLUSH of
                   (rc, z', used, written) \<Rightarrow>
                     (let w = take (avail_out0 - length out) written;
                          strm'' = \<lparr>next_in = drop used (next_in strm),
                                     total_out = total_out strm + length w, zstate = z'\<rparr>
                      in if rc \<noteq> Z_OK
                         then Some (finfo, strm'', retval + int (length w), out @ w,
                                    if rc = Z_STREAM_END then None else Some (ZlibError rc))
                         else inflate_loop zl finfo strm'' maxread avail_out0
                                (retval + int (length w)) (out @ w))))
      else Some (finfo, strm, retval, out, None))"

text \<open>
  \<^verbatim>\<open>ZIP_read\<close> returns \<open>retval\<close>, the bytes delivered into \<^verbatim>\<open>buf\<close>, the file, and the error
  it has set, if any.
\<close>

definition ZIP_read ::
  "'z zlib \<Rightarrow> 'z ZIPfileinfo \<Rightarrow> 32 word \<Rightarrow> 32 word \<Rightarrow>
     (int \<times> char list \<times> 'z ZIPfileinfo \<times> error option) option" where
  "ZIP_read zl finfo objSize objCount0 =
     (let maxread0 = uint objSize * uint objCount0;
          avail = uint (uncompressed_size (entry finfo) - uncompressed_position finfo)
      in if maxread0 = 0 then Some (0, [], finfo, None)
         else
           (let clamp = (avail < maxread0);
                maxread = (if clamp then avail - avail mod uint objSize else maxread0);
                objCount = (if clamp then (word_of_int (maxread div uint objSize) :: 32 word)
                            else objCount0);
                err = (if clamp then Some PastEOF else None)
            in if clamp \<and> objCount = 0 then Some (0, [], finfo, Some PastEOF)
               else
                 Option.bind
                   (if compression_method (entry finfo) = COMPMETH_NONE then
                      (case platformRead (handle finfo) (unat objSize) (unat objCount) of
                         (cnt, bytes, h') \<Rightarrow> Some (cnt, bytes, finfo\<lparr>handle := h'\<rparr>, err))
                    else
                      (case stream finfo of
                         None \<Rightarrow> Some (0, [], finfo, Some OutOfBounds)
                       | Some strm \<Rightarrow>
                           Option.bind
                             (inflate_loop zl finfo strm maxread (unat (objSize * objCount)) 0 [])
                             (\<lambda>(finfo', strm', retval, out, zerr).
                                Some (retval div uint objSize, out,
                                      finfo'\<lparr>stream := Some strm'\<rparr>,
                                      case zerr of Some e \<Rightarrow> Some e | None \<Rightarrow> err))))
                   (\<lambda>(retval, bytes, finfo', err').
                      Some (retval, bytes,
                            if retval > 0
                            then finfo'\<lparr>uncompressed_position :=
                                   uncompressed_position finfo' + word_of_int (retval * uint objSize)\<rparr>
                            else finfo',
                            err'))))"

definition ZIP_eof :: "'z ZIPfileinfo \<Rightarrow> bool" where
  "ZIP_eof finfo = (uncompressed_position finfo \<ge> uncompressed_size (entry finfo))"

definition ZIP_tell :: "'z ZIPfileinfo \<Rightarrow> int" where
  "ZIP_tell finfo = uint (uncompressed_position finfo)"

definition ZIP_fileLength :: "'z ZIPfileinfo \<Rightarrow> int" where
  "ZIP_fileLength finfo = uint (uncompressed_size (entry finfo))"

text \<open>
  The \<^verbatim>\<open>while (finfo->uncompressed_position != offset)\<close> loop of \<^verbatim>\<open>ZIP_seek\<close>, reading
  into a buffer of 512 bytes that is thrown away.
\<close>

partial_function (option) seek_loop ::
  "'z zlib \<Rightarrow> 'z ZIPfileinfo \<Rightarrow> 64 word \<Rightarrow> (bool \<times> 'z ZIPfileinfo \<times> error option) option" where
  "seek_loop zl finfo ofs =
     (if ucast (uncompressed_position finfo) \<noteq> ofs then
        (let maxread0 = (ucast (ofs - ucast (uncompressed_position finfo)) :: 32 word);
             maxread = (if maxread0 > 512 then 512 else maxread0)
         in Option.bind (ZIP_read zl finfo maxread 1) (\<lambda>(retval, bytes, finfo', err).
              if retval \<noteq> 1 then Some (False, finfo', err)
              else seek_loop zl finfo' ofs))
      else Some (True, finfo, None))"

definition ZIP_seek ::
  "'z zlib \<Rightarrow> 'z ZIPfileinfo \<Rightarrow> 64 word \<Rightarrow> (bool \<times> 'z ZIPfileinfo \<times> error option) option" where
  "ZIP_seek zl finfo ofs =
     (if ofs > ucast (uncompressed_size (entry finfo)) then Some (False, finfo, Some PastEOF)
      else if compression_method (entry finfo) = COMPMETH_NONE then
        (let newpos = uint ofs + uint (offset (entry finfo))
         in case platformSeek (handle finfo) newpos of
              None \<Rightarrow> Some (False, finfo, Some IoError)
            | Some h' \<Rightarrow>
                Some (True, finfo\<lparr>handle := h', uncompressed_position := word_of_int newpos\<rparr>,
                      None))
      else if ofs < ucast (uncompressed_position finfo) then
        (case z_init zl of (rc, z) \<Rightarrow>
           if rc \<noteq> Z_OK then Some (False, finfo, Some (ZlibError rc))
           else
             (case platformSeek (handle finfo) (uint (offset (entry finfo))) of
                None \<Rightarrow> Some (False, finfo, Some IoError)
              | Some h' \<Rightarrow>
                  seek_loop zl
                    (finfo\<lparr>handle := h', uncompressed_position := 0, compressed_position := 0,
                            stream := Some \<lparr>next_in = [], total_out = 0, zstate = z\<rparr>\<rparr>)
                    ofs))
      else seek_loop zl finfo ofs)"

subsection \<open>Example tables\<close>

definition file_entry :: "string \<Rightarrow> ZIPentry" where
  "file_entry nm = \<lparr>name = nm, symlink = None, resolved = ZIP_UNRESOLVED_FILE, offset = 0,
                     version = 0x031E, version_needed = 10, compression_method = 0, crc = 0,
                     compressed_size = 0, uncompressed_size = 0, last_mod_time = 0\<rparr>"

text \<open>
  The archive of the spec's enumeration scenario, \<^verbatim>\<open>d/ d/x d/y d/sub/ d/sub/z e\<close>, in the
  order of the sorted index.
\<close>

definition dir_archive :: ZIPinfo where
  "dir_archive = map file_entry [''d/'', ''d/sub/'', ''d/sub/z'', ''d/x'', ''d/y'', ''e'']"

definition sub_archive :: ZIPinfo where
  "sub_archive = map file_entry [''d/sub/'', ''d/x'', ''eee'']"

definition one_archive :: ZIPinfo where
  "one_archive = map file_entry [''a'']"



subsection \<open>Example archives\<close>

text \<open>An inflater that accepts nothing, for archives whose entries are all stored.\<close>

definition no_zlib :: "unit zlib" where
  "no_zlib = \<lparr>z_init = (0, ()), z_inflate = (\<lambda>z inp n flush. (-3, (), 0, []))\<rparr>"

text \<open>An entry as mounting leaves it: its kind, the offset of its local header, CRC and size.\<close>

definition mounted_entry ::
  "string \<Rightarrow> ZipResolveType \<Rightarrow> 32 word \<Rightarrow> 32 word \<Rightarrow> 32 word \<Rightarrow> ZIPentry" where
  "mounted_entry nm kind ofs c sz =
     \<lparr>name = nm, symlink = None, resolved = kind, offset = ofs,
      version = 0x031E, version_needed = 10, compression_method = 0, crc = c,
      compressed_size = sz, uncompressed_size = sz, last_mod_time = 0\<rparr>"

text \<open>
  The archive of the spec's first scenario: the stored file \<^verbatim>\<open>hello.txt\<close> with the 14 bytes
  \<^verbatim>\<open>Hello, World!\n\<close>. The local header takes bytes 0 to 38, the data bytes 39 to 52, the
  central directory and its end record the other 77.
\<close>

definition hello_zip :: "char list" where
  "hello_zip =
     [CHR 0x50, CHR 0x4B, CHR 0x03, CHR 0x04, CHR 0x0A, CHR 0x00, CHR 0x00, CHR 0x00,
      CHR 0x00, CHR 0x00, CHR 0x00, CHR 0x00, CHR 0x21, CHR 0x00, CHR 0x84, CHR 0x9E,
      CHR 0xE8, CHR 0xB4, CHR 0x0E, CHR 0x00, CHR 0x00, CHR 0x00, CHR 0x0E, CHR 0x00,
      CHR 0x00, CHR 0x00, CHR 0x09, CHR 0x00, CHR 0x00, CHR 0x00, CHR 0x68, CHR 0x65,
      CHR 0x6C, CHR 0x6C, CHR 0x6F, CHR 0x2E, CHR 0x74, CHR 0x78, CHR 0x74, CHR 0x48,
      CHR 0x65, CHR 0x6C, CHR 0x6C, CHR 0x6F, CHR 0x2C, CHR 0x20, CHR 0x57, CHR 0x6F,
      CHR 0x72, CHR 0x6C, CHR 0x64, CHR 0x21, CHR 0x0A, CHR 0x50, CHR 0x4B, CHR 0x01,
      CHR 0x02, CHR 0x1E, CHR 0x03, CHR 0x0A, CHR 0x00, CHR 0x00, CHR 0x00, CHR 0x00,
      CHR 0x00, CHR 0x00, CHR 0x00, CHR 0x21, CHR 0x00, CHR 0x84, CHR 0x9E, CHR 0xE8,
      CHR 0xB4, CHR 0x0E, CHR 0x00, CHR 0x00, CHR 0x00, CHR 0x0E, CHR 0x00, CHR 0x00,
      CHR 0x00, CHR 0x09, CHR 0x00, CHR 0x00, CHR 0x00, CHR 0x00, CHR 0x00, CHR 0x00,
      CHR 0x00, CHR 0x00, CHR 0x00, CHR 0x00, CHR 0x00, CHR 0xA4, CHR 0x81, CHR 0x00,
      CHR 0x00, CHR 0x00, CHR 0x00, CHR 0x68, CHR 0x65, CHR 0x6C, CHR 0x6C, CHR 0x6F,
      CHR 0x2E, CHR 0x74, CHR 0x78, CHR 0x74, CHR 0x50, CHR 0x4B, CHR 0x05, CHR 0x06,
      CHR 0x00, CHR 0x00, CHR 0x00, CHR 0x00, CHR 0x01, CHR 0x00, CHR 0x01, CHR 0x00,
      CHR 0x37, CHR 0x00, CHR 0x00, CHR 0x00, CHR 0x35, CHR 0x00, CHR 0x00, CHR 0x00,
      CHR 0x00, CHR 0x00]"

definition hello_table :: ZIPinfo where
  "hello_table = [mounted_entry ''hello.txt'' ZIP_UNRESOLVED_FILE 0 0xB4E89E84 14]"

text \<open>
  The table and the open file after \<^verbatim>\<open>openRead("hello.txt")\<close>, and that file with its
  handle at \<open>fp\<close> and its \<^verbatim>\<open>uncompressed_position\<close> at \<open>up\<close>.
\<close>

definition hello_resolved :: ZIPinfo where
  "hello_resolved = [mounted_entry ''hello.txt'' ZIP_RESOLVED 39 0xB4E89E84 14]"

definition hello_file :: "unit ZIPfileinfo" where
  "hello_file = \<lparr>entry = mounted_entry ''hello.txt'' ZIP_RESOLVED 39 0xB4E89E84 14,
                  handle = \<lparr>content = hello_zip, fpos = 39\<rparr>,
                  compressed_position = 0, uncompressed_position = 0, stream = None\<rparr>"

definition hello_at :: "nat \<Rightarrow> 32 word \<Rightarrow> unit ZIPfileinfo" where
  "hello_at fp up = hello_file\<lparr>handle := \<lparr>content = hello_zip, fpos = fp\<rparr>,
                               uncompressed_position := up\<rparr>"




text \<open>
  An archive with the file \<^verbatim>\<open>d/f\<close> (local header at 0) and the symlink \<^verbatim>\<open>l -> d/f\<close> (local
  header at 35).
\<close>

definition slash_zip :: "char list" where
  "slash_zip =
     [CHR 0x50, CHR 0x4B, CHR 0x03, CHR 0x04, CHR 0x0A, CHR 0x00, CHR 0x00, CHR 0x00,
      CHR 0x00, CHR 0x00, CHR 0x00, CHR 0x00, CHR 0x21, CHR 0x00, CHR 0x2D, CHR 0xD9,
      CHR 0x36, CHR 0xD7, CHR 0x02, CHR 0x00, CHR 0x00, CHR 0x00, CHR 0x02, CHR 0x00,
      CHR 0x00, CHR 0x00, CHR 0x03, CHR 0x00, CHR 0x00, CHR 0x00, CHR 0x64, CHR 0x2F,
      CHR 0x66, CHR 0x4F, CHR 0x4B, CHR 0x50, CHR 0x4B, CHR 0x03, CHR 0x04, CHR 0x0A,
      CHR 0x00, CHR 0x00, CHR 0x00, CHR 0x00, CHR 0x00, CHR 0x00, CHR 0x00, CHR 0x21,
      CHR 0x00, CHR 0xEE, CHR 0x46, CHR 0x52, CHR 0x06, CHR 0x03, CHR 0x00, CHR 0x00,
      CHR 0x00, CHR 0x03, CHR 0x00, CHR 0x00, CHR 0x00, CHR 0x01, CHR 0x00, CHR 0x00,
      CHR 0x00, CHR 0x6C, CHR 0x64, CHR 0x2F, CHR 0x66, CHR 0x50, CHR 0x4B, CHR 0x01,
      CHR 0x02, CHR 0x1E, CHR 0x03, CHR 0x0A, CHR 0x00, CHR 0x00, CHR 0x00, CHR 0x00,
      CHR 0x00, CHR 0x00, CHR 0x00, CHR 0x21, CHR 0x00, CHR 0x2D, CHR 0xD9, CHR 0x36,
      CHR 0xD7, CHR 0x02, CHR 0x00, CHR 0x00, CHR 0x00, CHR 0x02, CHR 0x00, CHR 0x00,
      CHR 0x00, CHR 0x03, CHR 0x00, CHR 0x00, CHR 0x00, CHR 0x00, CHR 0x00, CHR 0x00,
      CHR 0x00, CHR 0x00, CHR 0x00, CHR 0x00, CHR 0x00, CHR 0xA4, CHR 0x81, CHR 0x00,
      CHR 0x00, CHR 0x00, CHR 0x00, CHR 0x64, CHR 0x2F, CHR 0x66, CHR 0x50, CHR 0x4B,
      CHR 0x01, CHR 0x02, CHR 0x1E, CHR 0x03, CHR 0x0A, CHR 0x00, CHR 0x00, CHR 0x00,
      CHR 0x00, CHR 0x00, CHR 0x00, CHR 0x00, CHR 0x21, CHR 0x00, CHR 0xEE, CHR 0x46,
      CHR 0x52, CHR 0x06, CHR 0x03, CHR 0x00, CHR 0x00, CHR 0x00, CHR 0x03, CHR 0x00,
      CHR 0x00, CHR 0x00, CHR 0x01, CHR 0x00, CHR 0x00, CHR 0x00, CHR 0x00, CHR 0x00,
      CHR 0x00, CHR 0x00, CHR 0x00, CHR 0x00, CHR 0x00, CHR 0x00, CHR 0xFF, CHR 0xA1,
      CHR 0x23, CHR 0x00, CHR 0x00, CHR 0x00, CHR 0x6C, CHR 0x50, CHR 0x4B, CHR 0x05,
      CHR 0x06, CHR 0x00, CHR 0x00, CHR 0x00, CHR 0x00, CHR 0x02, CHR 0x00, CHR 0x02,
      CHR 0x00, CHR 0x60, CHR 0x00, CHR 0x00, CHR 0x00, CHR 0x45, CHR 0x00, CHR 0x00,
      CHR 0x00, CHR 0x00, CHR 0x00]"

definition slash_table :: ZIPinfo where
  "slash_table = [mounted_entry ''d/f'' ZIP_UNRESOLVED_FILE 0 0xD736D92D 2,
                  mounted_entry ''l'' ZIP_UNRESOLVED_SYMLINK 35 0x065246EE 3]"


section \<open>Properties\<close>

subsection \<open>Reading\<close>

lemma read1_Inr:
  assumes "read1 h n = Inr (bs, h')"
  shows "bs = take n (drop (fpos h) (content h)) \<and> length bs = n
         \<and> fpos h' = fpos h + n \<and> content h' = content h"
proof -
  let ?got = "take n (drop (fpos h) (content h))"
  from assms have n0: "n \<noteq> 0" and d: "length ?got div n = 1"
    and bs: "bs = ?got" and h': "h' = h\<lparr>fpos := fpos h + length ?got\<rparr>"
    by (auto simp add: read1_def platformRead_def Let_def split: if_splits)
  have "length ?got \<le> n" by simp
  moreover from d n0 have "length ?got \<ge> n"
    by (metis div_less linorder_not_le zero_neq_one)
  ultimately have "length ?got = n" by (rule antisym)
  with bs h' show ?thesis by simp
qed

lemma readui32_Inr:
  "readui32 h = Inr (v, h') \<Longrightarrow>
     v = swapULE (take 4 (drop (fpos h) (content h))) \<and> fpos h' = fpos h + 4
     \<and> content h' = content h"
  by (auto simp add: readui32_def elim!: bindE_InrE dest!: read1_Inr)

lemma readui16_Inr:
  "readui16 h = Inr (v, h') \<Longrightarrow>
     v = swapULE (take 2 (drop (fpos h) (content h))) \<and> fpos h' = fpos h + 2
     \<and> content h' = content h"
  by (auto simp add: readui16_def elim!: bindE_InrE dest!: read1_Inr)

subsection \<open>Initial resolution state of an entry\<close>

lemma mask_FF: "(0xFF :: 32 word) = mask 8"
  by (simp add: mask_eq_decr_exp)

lemma mask_FFFF: "(0xFFFF :: 32 word) = mask 16"
  by (simp add: mask_eq_decr_exp)

lemma host_byte:
  "(ucast (drop_bit 8 (ucast (v :: 16 word) :: 32 word) AND 0xFF) :: 8 word) = ucast (drop_bit 8 v)"
  unfolding mask_FF by (rule bit_word_eqI) (auto simp add: bit_simps)

lemma upper16:
  "(ucast (drop_bit 16 (x :: 32 word) AND 0xFFFF) :: 16 word) = ucast (drop_bit 16 x)"
  unfolding mask_FFFF by (rule bit_word_eqI) (auto simp add: bit_simps)

lemma does_symlinks_iff:
  "zip_version_does_symlinks (ucast v) \<longleftrightarrow> host_os v \<notin> {0, 1, 2, 4, 6, 11, 14, 13, 15, 18}"
  by (simp add: zip_version_does_symlinks_def host_byte host_os_def Let_def)

lemma has_symlink_attr_iff:
  "zip_has_symlink_attr e x \<longleftrightarrow>
     host_os (version e) \<notin> {0, 1, 2, 4, 6, 11, 14, 13, 15, 18}
     \<and> uncompressed_size e > 0
     \<and> (ucast (drop_bit 16 x) :: 16 word) AND 0xF000 = 0xA000"
  by (simp add: zip_has_symlink_attr_def does_symlinks_iff upper16 Let_def
                UNIX_FILETYPE_MASK_def UNIX_FILETYPE_SYMLINK_def)

text \<open>
  Claim C9. Whenever \<^verbatim>\<open>zip_load_entry\<close> parses a central-directory record, the entry's
  \<^verbatim>\<open>version\<close> and \<^verbatim>\<open>uncompressed_size\<close> are bytes 4-5 and 24-27 of that record, and the
  entry starts as \<open>ZIP_UNRESOLVED_SYMLINK\<close> exactly when the host-OS byte of the record's
  \<^verbatim>\<open>version made by\<close> is none of 0, 1, 2, 4, 6, 11, 14, 13, 15, 18, the record's uncompressed
  size is positive, and the upper 16 bits of the record's external attributes masked with
  \<^verbatim>\<open>0170000\<close> are \<^verbatim>\<open>0120000\<close>; otherwise it starts as \<open>ZIP_UNRESOLVED_FILE\<close>.
\<close>

theorem zip_load_entry_resolved:
  assumes "zip_load_entry mktime h ofs_fixup = Inr (ent, h')"
  shows "version ent = version_at h
         \<and> uncompressed_size ent = uncompressed_size_at h
         \<and> resolved ent =
           (if host_os (version_at h) \<notin> {0, 1, 2, 4, 6, 11, 14, 13, 15, 18}
               \<and> uncompressed_size_at h > 0
               \<and> (ucast (drop_bit 16 (external_attr_at h)) :: 16 word) AND 0xF000 = 0xA000
            then ZIP_UNRESOLVED_SYMLINK else ZIP_UNRESOLVED_FILE)"
  using assms unfolding zip_load_entry_def
  apply (erule_tac bindE_InrE, clarsimp split: if_splits)
  apply (erule_tac bindE_InrE, clarsimp)+
  apply (drule readui32_Inr readui16_Inr)+
  apply (clarsimp simp: Let_def has_symlink_attr_iff external_attr_at_def version_at_def
           uncompressed_size_at_def)
  apply (erule_tac bindE_InrE, clarsimp)+
  apply (simp add: add.commute)
  done

lemma cdr_loads:
  "\<exists>e h'. zip_load_entry (\<lambda>t. 0) (platformOpenRead cdr_symlink) 0 = Inr (e, h')"
  "\<exists>e h'. zip_load_entry (\<lambda>t. 0) (platformOpenRead cdr_fat) 0 = Inr (e, h')"
  by (simp_all add: zip_load_entry_def cdr_fat_def cdr_symlink_def platformOpenRead_def readui32_def readui16_def
        read1_def platformRead_def bindE_def seekE_def platformSeek_def platformTell_def
        ZIP_CENTRAL_DIR_SIG_def Let_def cstring_def NUL_def)

lemma cdr_fields:
  "version_at (platformOpenRead cdr_symlink) = 0x031E"
  "uncompressed_size_at (platformOpenRead cdr_symlink) = 1"
  "external_attr_at (platformOpenRead cdr_symlink) = 0xA1FF0000"
  "version_at (platformOpenRead cdr_fat) = 0x001E"
  "uncompressed_size_at (platformOpenRead cdr_fat) = 1"
  "external_attr_at (platformOpenRead cdr_fat) = 0xA1FF0000"
  by (simp_all add: version_at_def uncompressed_size_at_def external_attr_at_def
      cdr_fat_def cdr_symlink_def platformOpenRead_def)

theorem zip_load_entry_resolved_witness:
  "(\<exists>e h'. zip_load_entry (\<lambda>t. 0) (platformOpenRead cdr_symlink) 0 = Inr (e, h')
      \<and> version e = 0x031E \<and> uncompressed_size e = 1
      \<and> resolved e = ZIP_UNRESOLVED_SYMLINK)
   \<and> (\<exists>e h'. zip_load_entry (\<lambda>t. 0) (platformOpenRead cdr_fat) 0 = Inr (e, h')
      \<and> version e = 0x001E \<and> uncompressed_size e = 1
      \<and> resolved e = ZIP_UNRESOLVED_FILE)"
proof -
  obtain e h' where ev: "zip_load_entry (\<lambda>t. 0) (platformOpenRead cdr_symlink) 0 = Inr (e, h')"
    using cdr_loads(1) by blast
  obtain f k' where fv: "zip_load_entry (\<lambda>t. 0) (platformOpenRead cdr_fat) 0 = Inr (f, k')"
    using cdr_loads(2) by blast
  have "version e = 0x031E \<and> uncompressed_size e = 1 \<and> resolved e = ZIP_UNRESOLVED_SYMLINK"
    using zip_load_entry_resolved [OF ev] by (simp add: cdr_fields host_os_def)
  moreover
  have "version f = 0x001E \<and> uncompressed_size f = 1 \<and> resolved f = ZIP_UNRESOLVED_FILE"
    using zip_load_entry_resolved [OF fv] by (simp add: cdr_fields host_os_def)
  ultimately show ?thesis using ev fv by blast
qed


subsection \<open>Directory search and enumeration\<close>

text \<open>
  Claim C10 (the binary search of \<^verbatim>\<open>zip_find_start_of_dir\<close> reads only entries
  \<open>0 .. entryCount - 1\<close>) fails on the code: \<open>hi\<close> starts at \<open>entryCount\<close>, and for the
  one-entry table \<^verbatim>\<open>a\<close> and the path \<^verbatim>\<open>b\<close> the second probe is \<^verbatim>\<open>entries[1]\<close>, one past
  the end. On the empty table the first probe is already outside.
\<close>

theorem zip_find_start_of_dir_reads_past_end:
  "zip_find_start_of_dir one_archive ''b'' False = Inl OutOfBounds
   \<and> length one_archive = 1
   \<and> entry_at one_archive 0 = Inr (file_entry ''a'')
   \<and> entry_at one_archive 1 = Inl OutOfBounds
   \<and> zip_find_start_of_dir [] ''b'' False = Inl OutOfBounds"
  by (simp add: zip_find_start_of_dir_def one_archive_def file_entry_def
      cstr_at_def entry_at_def strncmp_def char_val_def NUL_def Let_def)

text \<open>
  Claim C1 (every immediate child is listed exactly once) fails on the code. In the spec's own
  archive the search for \<^verbatim>\<open>d\<close> starts at index 0; after \<^verbatim>\<open>sub\<close> is added the loop that
  should skip the children of \<^verbatim>\<open>sub\<close> compares with \<^verbatim>\<open>dirname\<close> and so skips every
  remaining entry under \<^verbatim>\<open>d/\<close>, from index 2 to index 5; the outer loop then reads the name
  \<^verbatim>\<open>e\<close> two bytes in, past its terminator. In the table \<^verbatim>\<open>d/sub/ d/x eee\<close> nothing is read
  out of range and the listing of \<^verbatim>\<open>d\<close> is \<^verbatim>\<open>sub\<close>, \<^verbatim>\<open>e\<close>: \<^verbatim>\<open>x\<close> is lost and a name
  from outside the directory is added.
\<close>

theorem ZIP_enumerateFiles_skips_siblings:
  "zip_find_start_of_dir dir_archive ''d'' False = Inr 0
   \<and> skip_children dir_archive ''d'' 1 2 = Inr 5
   \<and> ZIP_enumerateFiles dir_archive ''d'' False = Inl OutOfBounds
   \<and> ZIP_enumerateFiles sub_archive ''d'' False = Inr [''sub'', ''e'']"
  by (simp add: ZIP_enumerateFiles_def zip_find_start_of_dir_def file_entry_def dir_archive_def
      sub_archive_def cstr_at_def entry_at_def strncmp_def char_val_def NUL_def Let_def
      zip_entry_is_symlink_def)


subsection \<open>Finding the end-of-central-directory record\<close>

text \<open>
  Claim C6 (the locator finds a signature anywhere in the last 65557 bytes) fails on the code:
  the scan of a window runs from \<open>maxread - 4\<close> down to 1 and never looks at index 0. A later
  window repeats those four bytes, but a file of at most 256 bytes has one window only. The
  empty archive, 22 bytes with the signature at offset 0, is reported as no archive.
\<close>

theorem zip_find_end_of_central_dir_misses_offset_0:
  "length empty_zip = 22 \<and> eocd_sig_at empty_zip 0
   \<and> zip_find_end_of_central_dir (platformOpenRead empty_zip) = Inl NotAnArchive"
  by (simp add: zip_find_end_of_central_dir_def platformOpenRead_def empty_zip_def
      platformFileLength_def seekE_def platformSeek_def read1_def platformRead_def
      eocd_sig_at_def Let_def)

text \<open>
  Claim C2 (\<^verbatim>\<open>isArchive\<close> holds iff the file starts with the local-file signature or the
  locator succeeds) fails on the code: the second test is true when the locator returns -1.
  Eight bytes without any signature are accepted, and an end-of-central-directory record
  behind four other bytes, which the locator finds at offset 4, is rejected.
\<close>

theorem ZIP_isArchive_inverted:
  "ZIP_isArchive no_zip
   \<and> (swapULE (take 4 no_zip) :: 32 word) \<noteq> ZIP_LOCAL_FILE_SIG
   \<and> zip_find_end_of_central_dir (platformOpenRead no_zip) = Inl NotAnArchive
   \<and> \<not> ZIP_isArchive prefixed_zip
   \<and> zip_find_end_of_central_dir (platformOpenRead prefixed_zip) = Inr (4, 26)"
  by (simp add: ZIP_isArchive_def no_zip_def prefixed_zip_def readui32_def bindE_def
      ZIP_LOCAL_FILE_SIG_def zip_find_end_of_central_dir_def platformOpenRead_def empty_zip_def
      platformFileLength_def seekE_def platformSeek_def read1_def platformRead_def Let_def)


subsection \<open>Evaluating reads at a known position\<close>

lemma bindE_simps: "bindE (Inr x) f = f x" "bindE (Inl e) f = Inl e"
  by (simp_all add: bindE_def)

lemma read1_at:
  "0 < n \<Longrightarrow> fpos h + n \<le> length (content h) \<Longrightarrow>
     read1 h n = Inr (take n (drop (fpos h) (content h)), h\<lparr>fpos := fpos h + n\<rparr>)"
proof -
  assume n: "0 < n" and le: "fpos h + n \<le> length (content h)"
  then have "length (take n (drop (fpos h) (content h))) = n" by simp
  with n show ?thesis
    by (simp add: read1_def platformRead_def Let_def del: length_take)
qed

lemma readui32_at:
  "fpos h + 4 \<le> length (content h) \<Longrightarrow>
     readui32 h = Inr (swapULE (take 4 (drop (fpos h) (content h))), h\<lparr>fpos := fpos h + 4\<rparr>)"
  by (simp add: readui32_def read1_at bindE_simps)

lemma readui16_at:
  "fpos h + 2 \<le> length (content h) \<Longrightarrow>
     readui16 h = Inr (swapULE (take 2 (drop (fpos h) (content h))), h\<lparr>fpos := fpos h + 2\<rparr>)"
  by (simp add: readui16_def read1_at bindE_simps)

lemma seekE_at:
  "0 \<le> pos \<Longrightarrow> pos \<le> int (length (content h)) \<Longrightarrow> seekE h pos = Inr (h\<lparr>fpos := nat pos\<rparr>)"
  by (simp add: seekE_def platformSeek_def)



subsection \<open>The sorted index\<close>

lemma strcmp_range: "strcmp a b = -1 \<or> strcmp a b = 0 \<or> strcmp a b = 1"
  by (induction a b rule: strcmp.induct) auto




























subsection \<open>Symlink targets with a slash\<close>

text \<open>
  A turn of the loop of \<^verbatim>\<open>zip_expand_symlink_path\<close> that changes neither the buffer nor
  \<open>ptr\<close> nor \<open>prevptr\<close> is repeated for ever.
\<close>

lemma expand_loop_leaves:
  assumes fx: "buf_strchr path ptr CHR ''/'' = Inr (Some ptr)"
    "expand_body path ptr prevptr = Inr (path, ptr, prevptr)"
    and run: "expand_loop p q pp = Some y"
  shows "(p, q, pp) \<noteq> (path, ptr, prevptr)"
proof (rule expand_loop.raw_induct
         [where P = "\<lambda>p q pp y. (p, q, pp) \<noteq> (path, ptr, prevptr)", OF _ run])
  fix f p q pp y
  assume ih: "\<And>p q pp y. f p q pp = Some y \<Longrightarrow> (p, q, pp) \<noteq> (path, ptr, prevptr)"
    and step: "(case buf_strchr p q CHR ''/'' of
                  Inl e \<Rightarrow> Some (Inl e)
                | Inr None \<Rightarrow> Some (Inr p)
                | Inr (Some ptr') \<Rightarrow>
                    (case expand_body p ptr' pp of
                       Inl e \<Rightarrow> Some (Inl e)
                     | Inr (path', ptr'', prevptr') \<Rightarrow> f path' ptr'' prevptr')) = Some y"
  show "(p, q, pp) \<noteq> (path, ptr, prevptr)"
  proof
    assume "(p, q, pp) = (path, ptr, prevptr)"
    then have p: "p = path" "q = ptr" "pp = prevptr" by simp_all
    from step have "f path ptr prevptr = Some y"
      unfolding p by (simp add: fx del: buf_strchr.simps)
    from ih [OF this] show False by simp
  qed
qed

lemma expand_loop_fixed:
  assumes "buf_strchr path ptr CHR ''/'' = Inr (Some ptr)"
    and "expand_body path ptr prevptr = Inr (path, ptr, prevptr)"
  shows "expand_loop path ptr prevptr = None"
proof (cases "expand_loop path ptr prevptr")
  case None
  then show ?thesis .
next
  case (Some r)
  from expand_loop_leaves [OF assms Some] show ?thesis by simp
qed

lemma expand_loop_stuck:
  assumes "buf_strchr path ptr CHR ''/'' = Inr (Some found)"
    and "expand_body path found prevptr = Inr (path', ptr', prevptr')"
    and "buf_strchr path' ptr' CHR ''/'' = Inr (Some ptr')"
    and "expand_body path' ptr' prevptr' = Inr (path', ptr', prevptr')"
  shows "expand_loop path ptr prevptr = None"
proof -
  have "expand_loop path' ptr' prevptr' = None"
    using assms(3,4) by (rule expand_loop_fixed)
  then show ?thesis
    by (subst expand_loop.simps) (simp add: assms(1,2) del: buf_strchr.simps)
qed


lemma strchr_d_f: "buf_strchr (''d/f'' @ [NUL]) 0 CHR ''/'' = Inr (Some 1)"
  by (simp add: NUL_def)

lemma strchr_d_f_1: "buf_strchr (''d/f'' @ [NUL]) 1 CHR ''/'' = Inr (Some 1)"
  by (simp add: NUL_def)

lemma body_d_f: "expand_body (''d/f'' @ [NUL]) 1 pv = Inr (''d/f'' @ [NUL], 1, 1)"
  by (simp add: expand_body_def buf_at_def bindE_def NUL_def)

lemma expand_d_f: "zip_expand_symlink_path (''d/f'' @ [NUL]) = None"
  unfolding zip_expand_symlink_path_def
  by (rule expand_loop_stuck [OF strchr_d_f body_d_f strchr_d_f_1 body_d_f])

lemma slash_find: "zip_find_entry slash_table ''l'' = Inr (Suc 0)"
  by (simp add: zip_find_entry_def slash_table_def mounted_entry_def entry_at_def Let_def)

lemma slash_parse:
  "zip_parse_local (platformOpenRead slash_zip)
     (mounted_entry ''l'' ZIP_RESOLVING 35 0x065246EE 3)
   = Inr (mounted_entry ''l'' ZIP_RESOLVING 66 0x065246EE 3)"
  by (simp add: zip_parse_local_def platformOpenRead_def slash_zip_def mounted_entry_def
      seekE_at readui32_at readui16_at bindE_simps ZIP_LOCAL_FILE_SIG_def)

lemma slash_target:
  "read_link_target no_zlib \<lparr>content = slash_zip, fpos = 66\<rparr>
     (mounted_entry ''l'' ZIP_RESOLVING 66 0x065246EE 3) = Inr (''d/f'' @ [NUL])"
  by (simp add: read_link_target_def mounted_entry_def COMPMETH_NONE_def read1_at bindE_simps
      slash_zip_def)

lemma slash_resolve:
  "zip_resolve no_zlib (platformOpenRead slash_zip) slash_table (Suc 0) = None"
proof -
  have conv: "convert_dos_buf (mounted_entry ''l'' ZIP_RESOLVING 66 0x065246EE 3) (''d/f'' @ [NUL])
                = ''d/f'' @ [NUL]"
    by (simp add: convert_dos_buf_def zip_convert_dos_path_def mounted_entry_def cstring_def
        NUL_def)
  have sk: "seekE (platformOpenRead slash_zip) 66 = Inr \<lparr>content = slash_zip, fpos = 66\<rparr>"
    by (simp add: seekE_at platformOpenRead_def slash_zip_def)
  have tbl: "slash_table ! Suc 0 = mounted_entry ''l'' ZIP_UNRESOLVED_SYMLINK 35 0x065246EE 3"
    "length slash_table = Suc (Suc 0)"
    by (simp_all add: slash_table_def)
  have upd: "(mounted_entry ''l'' ZIP_UNRESOLVED_SYMLINK 35 0x065246EE 3)\<lparr>resolved := ZIP_RESOLVING\<rparr>
               = mounted_entry ''l'' ZIP_RESOLVING 35 0x065246EE 3"
    by (simp add: mounted_entry_def)
  have ofs: "offset (mounted_entry ''l'' ZIP_RESOLVING 66 0x065246EE 3) = 66"
    "resolved (mounted_entry ''l'' ZIP_UNRESOLVED_SYMLINK 35 0x065246EE 3) = ZIP_UNRESOLVED_SYMLINK"
    by (simp_all add: mounted_entry_def)
  have follow: "zip_follow_symlink no_zlib h info (''d/f'' @ [NUL]) = None" for h info
    by (simp add: expand_d_f [simplified] del: zip_resolve.simps)
  have link: "zip_resolve_symlink no_zlib (platformOpenRead slash_zip)
                (slash_table[Suc 0 := mounted_entry ''l'' ZIP_RESOLVING 66 0x065246EE 3]) (Suc 0)
              = None"
    by (subst zip_resolve_symlink.simps)
       (simp add: tbl ofs sk slash_target [simplified] conv [simplified] follow [unfolded append_Cons append_Nil]
          Let_def del: zip_follow_symlink.simps)
  show ?thesis
    by (subst zip_resolve.simps)
       (simp add: tbl upd slash_parse ofs link Let_def del: zip_resolve_symlink.simps)
qed

lemma slash_open: "ZIP_openRead no_zlib slash_zip slash_table ''l'' = None"
  by (simp add: ZIP_openRead_def slash_find zip_get_file_handle_def
      slash_resolve Let_def del: zip_resolve.simps)

text \<open>
  Claim C3 (resolution and the normalization of a symlink target always terminate) fails on the
  code. When the slash that \<^verbatim>\<open>strchr\<close> finds is followed by anything but a dot, the loop of
  \<^verbatim>\<open>zip_expand_symlink_path\<close> sets \<^verbatim>\<open>prevptr = ptr\<close> and searches again from the same
  \<open>ptr\<close>: it finds the same slash for ever. So the normalization of the target \<^verbatim>\<open>d/f\<close>
  does not return, and neither does resolving or opening the symlink \<^verbatim>\<open>l -> d/f\<close>.
\<close>

theorem zip_expand_symlink_path_diverges:
  "zip_expand_symlink_path (''d/f'' @ [NUL]) = None
   \<and> zip_resolve no_zlib (platformOpenRead slash_zip) slash_table 1 = None
   \<and> ZIP_openRead no_zlib slash_zip slash_table ''l'' = None"
  using expand_d_f slash_resolve slash_open by simp


subsection \<open>Failed resolutions\<close>


lemma keeps_trans: "keeps a b \<Longrightarrow> keeps b c \<Longrightarrow> keeps a c"
  by (auto simp add: keeps_def broken_def)





lemma zip_parse_local_resolved:
  "zip_parse_local h e = Inr e' \<Longrightarrow> resolved e' = resolved e"
  unfolding zip_parse_local_def
  by ((erule_tac bindE_InrE, (clarsimp split: if_splits)?)+)


lemma mounted_entry_fields:
  "name (mounted_entry nm k ofs c sz) = nm"
  "symlink (mounted_entry nm k ofs c sz) = None"
  "resolved (mounted_entry nm k ofs c sz) = k"
  "offset (mounted_entry nm k ofs c sz) = ofs"
  "version (mounted_entry nm k ofs c sz) = 0x031E"
  "version_needed (mounted_entry nm k ofs c sz) = 10"
  "compression_method (mounted_entry nm k ofs c sz) = 0"
  "crc (mounted_entry nm k ofs c sz) = c"
  "compressed_size (mounted_entry nm k ofs c sz) = sz"
  "uncompressed_size (mounted_entry nm k ofs c sz) = sz"
  "(mounted_entry nm k ofs c sz)\<lparr>resolved := k'\<rparr> = mounted_entry nm k' ofs c sz"
  "(mounted_entry nm k ofs c sz)\<lparr>offset := ofs'\<rparr> = mounted_entry nm k ofs' c sz"
  "(mounted_entry nm k ofs c sz)\<lparr>symlink := None\<rparr> = mounted_entry nm k ofs c sz"
  by (simp_all add: mounted_entry_def)

















subsection \<open>Seeking and reading a stored entry\<close>

lemma hello_parse:
  "zip_parse_local (platformOpenRead hello_zip)
     (mounted_entry ''hello.txt'' ZIP_RESOLVING 0 0xB4E89E84 14)
     = Inr (mounted_entry ''hello.txt'' ZIP_RESOLVING 39 0xB4E89E84 14)"
  by (simp add: zip_parse_local_def platformOpenRead_def hello_zip_def mounted_entry_def
      seekE_at readui32_at readui16_at bindE_simps ZIP_LOCAL_FILE_SIG_def)

lemma hello_resolve:
  "zip_resolve no_zlib (platformOpenRead hello_zip) hello_table 0 = Some (Inr (), hello_resolved)"
  by (simp add: hello_table_def hello_resolved_def mounted_entry_fields hello_parse Let_def)

lemma hello_open:
  "ZIP_openRead no_zlib hello_zip hello_table ''hello.txt'' = Some (Inr hello_file, hello_resolved)"
proof -
  have f: "zip_find_entry hello_table ''hello.txt'' = Inr 0"
    by (simp add: zip_find_entry_def hello_table_def mounted_entry_def entry_at_def Let_def)
  have sk: "seekE (platformOpenRead hello_zip) 39 = Inr \<lparr>content = hello_zip, fpos = 39\<rparr>"
    by (simp add: seekE_at platformOpenRead_def hello_zip_def)
  show ?thesis
    by (simp add: ZIP_openRead_def zip_get_file_handle_def f hello_resolve Let_def
          del: zip_resolve.simps)
       (simp add: hello_resolved_def mounted_entry_fields sk hello_file_def COMPMETH_NONE_def
          Let_def)
qed

lemma hello_seek:
  "ZIP_seek no_zlib hello_file 5 = Some (True, hello_at 44 44, None)"
  "ZIP_seek no_zlib hello_file 0 = Some (True, hello_at 39 39, None)"
  by (simp_all add: ZIP_seek_def hello_file_def hello_at_def mounted_entry_fields
      COMPMETH_NONE_def platformSeek_def hello_zip_def Let_def)

lemma hello_read:
  "ZIP_read no_zlib hello_file 1 100
     = Some (14, ''Hello, World!'' @ [CHR 0x0A], hello_at 53 14, Some PastEOF)"
  "ZIP_read no_zlib (hello_at 39 39) 1 100 = Some (91, drop 39 hello_zip, hello_at 130 130, None)"
  by (simp_all add: ZIP_read_def hello_file_def hello_at_def mounted_entry_fields
      COMPMETH_NONE_def platformRead_def hello_zip_def Let_def)

text \<open>
  What \<^verbatim>\<open>ZIP_seek\<close> leaves in \<^verbatim>\<open>uncompressed_position\<close> of a stored entry, and what
  \<^verbatim>\<open>ZIP_read\<close> of a stored entry delivers as long as that position is within the entry.
\<close>

lemma STORE_seek_tell:
  assumes "compression_method (entry finfo) = COMPMETH_NONE"
    and "ZIP_seek zl finfo b = Some (True, finfo', err)"
  shows "ZIP_tell finfo' = uint (ucast b + offset (entry finfo))"
  using assms
  by (auto simp add: ZIP_seek_def ZIP_tell_def Let_def split: if_splits option.splits)

lemma ZIP_read_STORE_clamped:
  assumes store: "compression_method (entry finfo) = COMPMETH_NONE"
    and inv: "uncompressed_position finfo \<le> uncompressed_size (entry finfo)"
    and rd: "ZIP_read zl finfo objSize objCount = Some (retval, bytes, finfo', err)"
  shows "int (length bytes)
           \<le> uint (uncompressed_size (entry finfo)) - uint (uncompressed_position finfo)"
proof -
  let ?avail = "uint (uncompressed_size (entry finfo) - uncompressed_position finfo)"
  let ?want = "uint objSize * uint objCount"
  have avail: "?avail = uint (uncompressed_size (entry finfo)) - uint (uncompressed_position finfo)"
    using inv by (simp add: uint_minus_simple_alt)
  have a0: "uint (uncompressed_position finfo) \<le> uint (uncompressed_size (entry finfo))"
    using inv by (simp add: word_le_def)
  show ?thesis
  proof (cases "?want = 0")
    case True
    with rd show ?thesis
      using a0 by (auto simp add: ZIP_read_def Let_def)
  next
    case False
    then have s0: "0 < uint objSize"
      by (metis mult_zero_left uint_ge_0 order_le_less)
    show ?thesis
    proof (cases "?avail < ?want")
      case noclamp: False
      with rd False store have "bytes = fst (snd (platformRead (handle finfo) (unat objSize) (unat objCount)))"
        by (auto simp add: ZIP_read_def Let_def split: prod.splits if_splits)
      then have "length bytes \<le> unat objSize * unat objCount"
        by (simp add: platformRead_def Let_def)
      then have "int (length bytes) \<le> ?want"
        by (metis of_nat_le_iff of_nat_mult uint_nat)
      with noclamp avail show ?thesis by simp
    next
      case clamp: True
      let ?maxread = "?avail - ?avail mod uint objSize"
      let ?cnt = "(word_of_int (?maxread div uint objSize) :: 32 word)"
      have mle: "?maxread \<le> ?avail" using s0 by simp
      have cle: "uint ?cnt \<le> ?maxread div uint objSize"
        by (simp add: uint_word_of_int take_bit_eq_mod zmod_le_nonneg_dividend
            pos_imp_zdiv_nonneg_iff s0)
      show ?thesis
      proof (cases "?cnt = 0")
        case True
        with rd False clamp show ?thesis
          using a0 by (auto simp add: ZIP_read_def Let_def)
      next
        case nz: False
        with rd False clamp store
        have "bytes = fst (snd (platformRead (handle finfo) (unat objSize) (unat ?cnt)))"
          by (auto simp add: ZIP_read_def Let_def split: prod.splits if_splits)
        then have "length bytes \<le> unat objSize * unat ?cnt"
          by (simp add: platformRead_def Let_def)
        then have "int (length bytes) \<le> uint objSize * uint ?cnt"
          by (metis of_nat_le_iff of_nat_mult uint_nat)
        also have "\<dots> \<le> uint objSize * (?maxread div uint objSize)"
          by (rule mult_left_mono [OF cle]) (use s0 in simp)
        also have "\<dots> \<le> ?maxread"
        proof -
          have "uint objSize * (?maxread div uint objSize) + ?maxread mod uint objSize = ?maxread"
            by (rule mult_div_mod_eq)
          moreover have "0 \<le> ?maxread mod uint objSize"
            using s0 by simp
          ultimately show ?thesis by linarith
        qed
        finally show ?thesis using mle avail by simp
      qed
    qed
  qed
qed

text \<open>
  Claim C4 (after a successful \<^verbatim>\<open>seek(b)\<close> the position reported by \<^verbatim>\<open>tell\<close> is \<open>b\<close>) fails
  on the code for stored entries: \<^verbatim>\<open>ZIP_seek\<close> stores \<^verbatim>\<open>offset + entry->offset\<close>, the
  position in the archive, in \<^verbatim>\<open>uncompressed_position\<close>. In the archive of \<^verbatim>\<open>hello.txt\<close>,
  whose data starts at byte 39, \<^verbatim>\<open>tell\<close> after \<^verbatim>\<open>seek(5)\<close> is 44, in a file of 14 bytes.
\<close>

theorem ZIP_seek_STORE_tell:
  "ZIP_openRead no_zlib hello_zip hello_table ''hello.txt'' = Some (Inr hello_file, hello_resolved)
   \<and> ZIP_fileLength hello_file = 14
   \<and> ZIP_tell hello_file = 0
   \<and> ZIP_seek no_zlib hello_file 5 = Some (True, hello_at 44 44, None)
   \<and> ZIP_tell (hello_at 44 44) = 44"
  by (simp add: hello_open hello_seek)
     (simp add: ZIP_fileLength_def ZIP_tell_def hello_file_def hello_at_def mounted_entry_fields)

text \<open>
  Claim C8 (a read is clamped to what is left before \<^verbatim>\<open>uncompressed_size\<close>, with
  \<open>PastEOF\<close>, and never delivers bytes behind it) fails on the code once a stored entry has
  been sought. A fresh \<^verbatim>\<open>read(buf, 1, 100)\<close> of \<^verbatim>\<open>hello.txt\<close> is clamped to 14 bytes with
  \<open>PastEOF\<close>. After \<^verbatim>\<open>seek(0)\<close> the position is 39, \<^verbatim>\<open>avail\<close> is computed as the 32-bit
  difference \<open>14 - 39\<close>, nothing is clamped, no error is set, and the same read delivers 91
  bytes: the 14 of the entry and the 77 bytes of the central directory behind it.
\<close>

theorem ZIP_read_after_seek_unclamped:
  "ZIP_read no_zlib hello_file 1 100
     = Some (14, ''Hello, World!'' @ [CHR 0x0A], hello_at 53 14, Some PastEOF)
   \<and> ZIP_seek no_zlib hello_file 0 = Some (True, hello_at 39 39, None)
   \<and> ZIP_fileLength (hello_at 39 39) = 14
   \<and> ZIP_read no_zlib (hello_at 39 39) 1 100
       = Some (91, drop 39 hello_zip, hello_at 130 130, None)
   \<and> length (drop 39 hello_zip) = 91"
  by (simp add: hello_read hello_seek)
     (simp add: ZIP_fileLength_def hello_file_def hello_at_def mounted_entry_fields hello_zip_def)

end
